(* ===== verification/NodeLink_Prelude.thy ===== *)
theory NodeLink_Prelude
  imports Main "HOL-Library.Multiset" "HOL-Library.While_Combinator"
begin

text \<open>
  Shared vocabulary of the NodeLink development: the names of the model's basic
  types, the JavaScript error values that the handlers may throw, the collections
  of facts that the component theories feed to the simplifier, and generic lemmas
  on lists and options used by several components.
\<close>

section \<open>Fact collections\<close>

named_theorems vc_defs "unfolding rules of the VoiceConnection handlers"
named_theorems vc_upd "simplification rules for the world-update helpers"

section \<open>Basic types\<close>

type_synonym guild_id = string
type_synonym stream = nat
type_synonym filters = "(string \<times> string) list"

text \<open>
  An exception thrown by JavaScript code.  A property read on \<open>null\<close>
  (\<open>this.config.track.userData\<close> with no track) throws a \<open>TypeError\<close>; a call of an
  undefined name throws a \<open>ReferenceError\<close>; an awaited promise that rejects
  rethrows its reason, kept as \<open>Rejected\<close>.
\<close>

datatype js_error =
    TypeError string
  | ReferenceError string
  | Rejected string

type_synonym 'a js_result = "js_error + 'a"

text \<open>JavaScript truthiness of a string: only the empty string is falsy.\<close>

definition truthy_str :: "string \<Rightarrow> bool" where
  "truthy_str s \<longleftrightarrow> s \<noteq> []"

section \<open>Generic lemmas\<close>

lemma truthy_str_simps [simp]:
  "truthy_str [] = False" "truthy_str (c # s) = True"
  by (simp_all add: truthy_str_def)

lemma filter_keeps_other:
  "P x \<Longrightarrow> x \<in> set xs \<Longrightarrow> x \<in> set (filter P xs)"
  by simp

lemma length_filter_removes_member:
  "x \<in> set xs \<Longrightarrow> \<not> P x \<Longrightarrow> length (filter P xs) < length xs"
  by (induction xs) (auto intro: le_less_trans[OF length_filter_le])

lemma count_list_append_single [simp]:
  "count_list (xs @ [y]) x = count_list xs x + (if x = y then 1 else 0)"
  by (induction xs) auto

lemma filter_upt_nth: "map (\<lambda>i. xs ! i) (filter (\<lambda>i. P (xs ! i)) [0..<length xs]) = filter P xs"
proof (induction xs rule: rev_induct)
  case Nil then show ?case by simp
next
  case (snoc x xs)
  have "filter (\<lambda>i. P ((xs @ [x]) ! i)) [0..<length xs] = filter (\<lambda>i. P (xs ! i)) [0..<length xs]"
    by (rule filter_cong) (auto simp: nth_append)
  moreover have "map (\<lambda>i. (xs @ [x]) ! i) (filter (\<lambda>i. P (xs ! i)) [0..<length xs]) =
      map (\<lambda>i. xs ! i) (filter (\<lambda>i. P (xs ! i)) [0..<length xs])"
    by (rule map_cong) (auto simp: nth_append)
  ultimately show ?case using snoc by simp
qed

lemma filter_upt_Suc_shift:
  "filter (\<lambda>i. P ((x # xs) ! i)) [0..<Suc (length xs)] =
   (if P x then [0] else []) @ map Suc (filter (\<lambda>i. P (xs ! i)) [0..<length xs])"
  by (simp add: upt_conv_Cons map_Suc_upt[symmetric] filter_map comp_def del: upt_Suc)

lemma while_option_id_None: "b s \<Longrightarrow> while_option b (\<lambda>q. q) s = None"
proof (rule ccontr)
  assume bs: "b s" and "while_option b (\<lambda>q. q) s \<noteq> None"
  then obtain t where t: "while_option b (\<lambda>q. q) s = Some t" by blast
  have "t = s" by (rule while_option_rule[where P = "\<lambda>q. q = s", OF _ t]) auto
  moreover have "\<not> b t" by (rule while_option_stop[OF t])
  ultimately show False using bs by simp
qed

lemma concat_map_single:
  "concat (map (\<lambda>i. if i = k then A else []) order) = concat (replicate (count_list order k) A)"
  by (induction order) auto

lemma count_list_distinct: "distinct xs \<Longrightarrow> count_list xs x = (if x \<in> set xs then 1 else 0)"
  by (induction xs) auto

lemma filter_concat_map_single:
  assumes "\<forall>i\<in>set order. filter P (h i) = (if i = k then h k else [])" "count_list order k = 1"
  shows "filter P (concat (map h order)) = h k"
proof -
  have "filter P (concat (map h order)) = concat (map (\<lambda>i. filter P (h i)) order)"
    by (simp add: filter_concat comp_def)
  also have "\<dots> = concat (map (\<lambda>i. if i = k then h k else []) order)"
    using assms(1) by (intro arg_cong[where f = concat] map_cong) auto
  finally show ?thesis using assms(2) by (simp add: concat_map_single)
qed

lemma concat_map_nonempty:
  "k \<in> set order \<Longrightarrow> h k \<noteq> [] \<Longrightarrow> concat (map h order) \<noteq> []"
  by auto

lemma count_list_perm_upt:
  "mset order = mset [0..<n] \<Longrightarrow> count_list order k = (if k < n then 1 else 0)"
  by (metis count_mset count_list_distinct distinct_upt atLeastLessThan_iff set_upt zero_le)

end
