(* ===== verification/Interfaces.thy ===== *)
theory Interfaces
  imports NodeLink_Prelude
begin

text \<open>
  The data that crosses component boundaries: the track descriptors produced by the
  resolvers (src/src/sources/spotify.js builds them, src/src/connection/voiceHandler.js
  plays them), the answers of the external collaborators (the resource resolver
  \<open>sources.getTrackURL\<close>/\<open>getTrackStream\<close>, the filter pipeline \<open>Filters.getResource\<close>,
  the voice session of \<open>@performanc/voice\<close>), the commands a VoiceConnection issues to
  its voice session, and the JSON events it sends on the control channel.
  The collaborators are not under src/: only their contracts appear here, as the
  values they return.
\<close>

section \<open>Tracks\<close>

text \<open>The \<open>track\<close> object literal built by the resolvers (spotify.js, e.g. lines 128-140);
  \<open>identifier\<close> is an Isar keyword, so its field is \<open>trackIdentifier\<close>.\<close>

record track_info =
  trackIdentifier :: string
  isSeekable :: bool
  author :: string
  length_ms :: nat
  isStream :: bool
  position :: nat
  title :: string
  uri :: string
  artworkUrl :: string
  isrc :: "string option"
  sourceName :: string

text \<open>\<open>this.config.track = { encoded: track, info: decodedTrack }\<close> (voiceHandler.js line 313).\<close>

record track =
  encoded :: string
  info :: track_info

section \<open>Answers of the external collaborators\<close>

text \<open>The \<open>exception\<close> object a resolver or the filter pipeline reports.\<close>

record exc =
  message :: string
  severity :: string
  cause :: string

text \<open>\<open>sources.getTrackURL\<close>: \<open>{exception}\<close> or \<open>{url, protocol, format, additionalData}\<close>.\<close>

record url_info =
  url :: string
  protocol :: string
  format :: string
  additionalData :: "string option"

datatype url_result = UrlException exc | UrlOk url_info

text \<open>\<open>sources.getTrackStream\<close>: \<open>{exception}\<close> or \<open>{stream}\<close>.\<close>

datatype stream_result = StreamException exc | StreamOk stream

text \<open>A playable resource: \<open>{exception}\<close> or \<open>{stream}\<close>.\<close>

datatype resource = ResException exc | ResStream stream

text \<open>The arguments of \<open>filter.getResource(guildId, info, protocol, url, seek, endTime, ffmpeg, extra)\<close>.\<close>

record filter_request =
  fr_guild :: guild_id
  fr_info :: track_info
  fr_protocol :: "string option"
  fr_url :: "string option"
  fr_seek :: "nat option"
  fr_endTime :: "string option"
  fr_additional :: "string option"

section \<open>The voice session\<close>

text \<open>
  The status fields of the voice session that the handler compares with string
  literals: \<open>'connected'\<close>, \<open>'disconnected'\<close> for the transport and \<open>'idle'\<close>,
  \<open>'playing'\<close>, \<open>'paused'\<close> for the player. Every other status is kept as its string.
\<close>

datatype cstatus = CConnected | CDisconnected | COther string

datatype pstatus = PIdle | PPlaying | PPaused | POther string

text \<open>The \<open>newState\<close> object of a \<open>stateChange\<close> event: status, \<open>code\<close> and \<open>closeCode\<close>.\<close>

record conn_state =
  cs_status :: cstatus
  cs_code :: "int option"
  cs_closeCode :: "int option"

text \<open>The \<open>newState\<close> object of a \<open>playerStateChange\<close> event.\<close>

record player_state =
  ps_status :: pstatus
  ps_reason :: string

text \<open>
  The fields of the voice-session object that the handler reads:
  \<open>state.status\<close>, \<open>playerState.status\<close>, \<open>audioStream\<close>, \<open>udpInfo?.secretKey\<close>,
  \<open>ws\<close>, \<open>statistics.packetsExpected\<close> and \<open>ping\<close>.
\<close>

record conn =
  c_status :: cstatus
  c_playerState :: pstatus
  c_audioStream :: "stream option"
  c_secretKey :: bool
  c_ws :: bool
  c_packetsExpected :: nat
  c_ping :: int

text \<open>The calls the handler makes on the voice session, in the order it makes them.\<close>

datatype conn_cmd =
    Join guild_id string
  | Destroy
  | Play stream
  | Stop
  | Pause
  | Unpause
  | SetVolume stream int
  | VoiceStateUpdate guild_id string "string option"
  | VoiceServerUpdate string "string option" guild_id "string option"
  | Connect

section \<open>Outbound events on the control channel\<close>

datatype end_reason = Finished | Replaced | Stopped | LoadFailed

text \<open>
  The JSON objects passed to \<open>client.ws.send\<close>.  A \<open>track\<close> field is \<open>None\<close> when the
  code sends \<open>this.config.track\<close> while it is \<open>null\<close>.
\<close>

datatype out_msg =
    TrackStartEvent guild_id "track option"
  | TrackEndEvent guild_id "track option" end_reason
  | TrackExceptionEvent guild_id "track option" exc
  | WebSocketClosedEvent guild_id "int option" "string option" bool
  | PlayerUpdate guild_id int nat bool int

section \<open>Configuration and pure collaborators\<close>

text \<open>
  \<open>config.options.playerUpdateInterval\<close>, \<open>config.filters.enabled\<close>,
  \<open>config.options.threshold\<close> (config.js), the table \<open>constants.VoiceWSCloseCodes\<close>
  (constants.js), \<open>Filters.configure\<close>, \<open>voiceUtils.createAudioResource\<close> and the bot's
  \<open>client.userId\<close>: none is under src/, so each is a parameter of the model.
\<close>

record environ =
  playerUpdateInterval :: nat
  filtersEnabled :: bool
  threshold :: nat
  closeCodes :: "int option \<Rightarrow> string option"
  configure :: "filters \<Rightarrow> filters"
  createAudioResource :: "stream \<Rightarrow> string \<Rightarrow> stream"
  userId :: string

end
