(* ===== verification/Voice_Connection.thy ===== *)
theory Voice_Connection
  imports Interfaces
begin

text \<open>
  The per-guild playback state machine, class \<open>VoiceConnection\<close> of
  src/src/connection/voiceHandler.js.  The object's fields are the record \<open>vc\<close>; the
  process-wide state it touches (the two global counters, the registry
  \<open>client.players\<close>, the control-channel socket \<open>client.ws\<close> and the live
  \<open>setInterval\<close> timers) is the record \<open>glob\<close>; a handler maps a \<open>world\<close> (both) to the
  next world and, where the method returns or throws, a \<open>js_result\<close>.
  Synchronous methods are one function each.  The asynchronous methods \<open>play\<close> and
  \<open>filters\<close> are cut at every \<open>await\<close>: the code before the first \<open>await\<close> is a start
  function, each continuation is a constructor of \<open>pending\<close> holding the local
  variables that are live across the \<open>await\<close>, and \<open>resume\<close> runs one continuation
  on the settled value of the awaited promise.
\<close>

section \<open>State\<close>

text \<open>\<open>this.cache\<close> (lines 20-25; \<open>startedAt\<close> is set at line 127, \<open>ffmpeg\<close> is read
  at lines 269 and 385 and never written).\<close>

record cache =
  cache_url :: "string option"
  cache_protocol :: "string option"
  cache_track :: "track option"
  cache_volume :: int
  cache_startedAt :: "int option"
  cache_ffmpeg :: "nat option"

record voice_creds =
  token :: "string option"
  endpoint :: "string option"
  sessionId :: "string option"

text \<open>\<open>this.config.state\<close>, written only by \<open>_stopTrack\<close> (lines 47-52).\<close>

record pstate =
  st_time :: "int option"
  st_position :: nat
  st_connected :: bool
  st_ping :: int

text \<open>\<open>this.config\<close> (lines 28-39).\<close>

record config =
  cfg_guildId :: guild_id
  cfg_track :: "track option"
  cfg_volume :: int
  cfg_paused :: bool
  cfg_filters :: filters
  cfg_voice :: voice_creds
  cfg_state :: "pstate option"

text \<open>
  The VoiceConnection object: \<open>this.connection\<close>, \<open>this.cache\<close>,
  \<open>this.stateInterval\<close>, \<open>this.config\<close>, and the calls it has made on its voice
  session so far (\<open>issued\<close>).
\<close>

record vc =
  connection :: "conn option"
  vcache :: cache
  stateInterval :: "nat option"
  config :: config
  issued :: "conn_cmd list"

text \<open>
  Process-wide state: \<open>global.nodelinkPlayersCount\<close>,
  \<open>global.nodelinkPlayingPlayersCount\<close> (lines 13-14), the guilds of
  \<open>client.players\<close>, the messages sent on \<open>client.ws\<close>, and the live interval timers
  with the guild whose handler created them.
\<close>

record glob =
  playersCount :: int
  playingCount :: int
  players :: "guild_id set"
  outbox :: "out_msg list"
  timers :: "(nat \<times> guild_id) list"
  nextTimer :: nat

record world =
  gl :: glob
  me :: vc

abbreviation cfg :: "world \<Rightarrow> config" where
  "cfg w \<equiv> config (me w)"

abbreviation gid :: "world \<Rightarrow> guild_id" where
  "gid w \<equiv> cfg_guildId (config (me w))"

section \<open>Constructor and helpers\<close>

definition initial_config :: "guild_id \<Rightarrow> config" where
  "initial_config g =
     \<lparr>cfg_guildId = g, cfg_track = None, cfg_volume = 100, cfg_paused = False,
      cfg_filters = [],
      cfg_voice = \<lparr>token = None, endpoint = None, sessionId = None\<rparr>,
      cfg_state = None\<rparr>"

text \<open>\<open>constructor(guildId, client)\<close> (lines 17-40).\<close>

definition new_vc :: "guild_id \<Rightarrow> vc" where
  "new_vc g =
     \<lparr>connection = None,
      vcache = \<lparr>cache_url = None, cache_protocol = None, cache_track = None,
                cache_volume = 100, cache_startedAt = None, cache_ffmpeg = None\<rparr>,
      stateInterval = None, config = initial_config g, issued = []\<rparr>"

text \<open>\<open>this.client.ws.send(JSON.stringify(m))\<close>.\<close>

definition send :: "out_msg \<Rightarrow> world \<Rightarrow> world" where
  "send m w = w\<lparr>gl := (gl w)\<lparr>outbox := outbox (gl w) @ [m]\<rparr>\<rparr>"

text \<open>A call on \<open>this.connection\<close>.\<close>

definition issue :: "conn_cmd \<Rightarrow> world \<Rightarrow> world" where
  "issue c w = w\<lparr>me := (me w)\<lparr>issued := issued (me w) @ [c]\<rparr>\<rparr>"

definition upd_config :: "(config \<Rightarrow> config) \<Rightarrow> world \<Rightarrow> world" where
  "upd_config f w = w\<lparr>me := (me w)\<lparr>config := f (config (me w))\<rparr>\<rparr>"

definition upd_cache :: "(cache \<Rightarrow> cache) \<Rightarrow> world \<Rightarrow> world" where
  "upd_cache f w = w\<lparr>me := (me w)\<lparr>vcache := f (vcache (me w))\<rparr>\<rparr>"

declare send_def [vc_upd] issue_def [vc_upd] upd_config_def [vc_upd] upd_cache_def [vc_upd]

definition idle_pstate :: pstate where
  "idle_pstate = \<lparr>st_time = None, st_position = 0, st_connected = False, st_ping = -1\<rparr>"

text \<open>
  \<open>_stopTrack()\<close> (lines 42-53): the playing counter is decremented whether or not a
  track was playing; \<open>clearInterval\<close> stops the last timer this object created, and
  \<open>this.stateInterval\<close> keeps its old value.
\<close>

definition stopTrack :: "world \<Rightarrow> world" where
  "stopTrack w =
     (let g = (gl w)\<lparr>playingCount := playingCount (gl w) - 1\<rparr>;
          g' = (case stateInterval (me w) of
                  None \<Rightarrow> g
                | Some i \<Rightarrow> g\<lparr>timers := filter (\<lambda>t. fst t \<noteq> i) (timers g)\<rparr>)
      in upd_config (\<lambda>c. c\<lparr>cfg_state := Some idle_pstate\<rparr>) (w\<lparr>gl := g'\<rparr>))"

text \<open>\<open>_getRealTime()\<close> (lines 55-57), on the connection it reads.\<close>

definition getRealTime :: "conn \<Rightarrow> nat" where
  "getRealTime c = c_packetsExpected c * 20"

section \<open>Synchronous methods\<close>

text \<open>
  \<open>setup()\<close> (lines 59-62): count the player and join the voice channel; the
  listeners registered at lines 63-181 are the event handlers below, dispatched by
  the system model.  \<open>c0\<close> is the session object \<open>joinVoiceChannel\<close> returns.
\<close>

definition setup_vc :: "environ \<Rightarrow> world \<Rightarrow> conn \<Rightarrow> world" where
  "setup_vc x w c0 =
     (let w1 = w\<lparr>gl := (gl w)\<lparr>playersCount := playersCount (gl w) + 1\<rparr>\<rparr>;
          w2 = w1\<lparr>me := (me w1)\<lparr>connection := Some c0\<rparr>\<rparr>
      in issue (Join (gid w2) (userId x)) w2)"

text \<open>\<open>updateVoice(buffer)\<close> (lines 184-191).\<close>

definition updateVoice :: "environ \<Rightarrow> world \<Rightarrow> voice_creds \<Rightarrow> world \<times> unit js_result" where
  "updateVoice x w buf =
     (let w1 = upd_config (\<lambda>c. c\<lparr>cfg_voice := buf\<rparr>) w
      in case connection (me w1) of
           None \<Rightarrow> (w1, Inl (TypeError ''voiceStateUpdate''))
         | Some c \<Rightarrow>
             (let w2 = issue (VoiceStateUpdate (gid w1) (userId x) (sessionId buf)) w1;
                  w3 = issue (VoiceServerUpdate (userId x) (token buf) (gid w1) (endpoint buf)) w2
              in (if c_ws c then w3 else issue Connect w3, Inr ())))"

text \<open>\<open>destroy()\<close> (lines 193-199): the connection is not set to null and
  \<open>nodelinkPlayersCount\<close> is not decremented.\<close>

definition destroy :: "world \<Rightarrow> world" where
  "destroy w =
     (let w1 = (if connection (me w) \<noteq> None then issue Destroy w else w);
          w2 = stopTrack w1
      in w2\<lparr>gl := (gl w2)\<lparr>players := players (gl w2) - {gid w2}\<rparr>\<rparr>)"

text \<open>\<open>stop()\<close> (lines 331-350); on a live track it returns \<open>undefined\<close> (\<open>None\<close>).\<close>

definition stop :: "world \<Rightarrow> world \<times> config option js_result" where
  "stop w =
     (case cfg_track (cfg w) of
        None \<Rightarrow> (w, Inr (Some (cfg w)))
      | Some t \<Rightarrow>
          (let w1 = send (TrackEndEvent (gid w) (Some t) Stopped) w
           in case connection (me w1) of
                None \<Rightarrow> (w1, Inl (TypeError ''audioStream''))
              | Some c \<Rightarrow>
                  (let w2 = (if c_audioStream c \<noteq> None then issue Stop w1 else w1);
                       w3 = upd_config (\<lambda>k. k\<lparr>cfg_track := None, cfg_filters := []\<rparr>) w2;
                       w4 = upd_cache (\<lambda>k. k\<lparr>cache_url := None\<rparr>) w3
                   in (stopTrack w4, Inr None))))"

text \<open>\<open>volume(volume)\<close> (lines 352-364): staged in the cache while no stream plays.\<close>

definition volume :: "world \<Rightarrow> int \<Rightarrow> world \<times> config option js_result" where
  "volume w v =
     (case connection (me w) of
        None \<Rightarrow> (w, Inl (TypeError ''audioStream''))
      | Some c \<Rightarrow>
          (case c_audioStream c of
             None \<Rightarrow> (let w1 = upd_cache (\<lambda>k. k\<lparr>cache_volume := v\<rparr>) w in (w1, Inr (Some (cfg w1))))
           | Some s \<Rightarrow>
               (let w1 = upd_config (\<lambda>k. k\<lparr>cfg_volume := v\<rparr>) (issue (SetVolume s v) w)
                in (w1, Inr (Some (cfg w1))))))"

text \<open>\<open>pause(pause)\<close> (lines 366-373).\<close>

definition pause :: "world \<Rightarrow> bool \<Rightarrow> world \<times> config option js_result" where
  "pause w p =
     (case connection (me w) of
        None \<Rightarrow> (w, Inl (TypeError ''pause''))
      | Some c \<Rightarrow>
          (let w1 = upd_config (\<lambda>k. k\<lparr>cfg_paused := p\<rparr>) (issue (if p then Pause else Unpause) w)
           in (w1, Inr (Some (cfg w1)))))"

declare setup_vc_def [vc_defs] updateVoice_def [vc_defs] destroy_def [vc_defs]
  stop_def [vc_defs] volume_def [vc_defs] pause_def [vc_defs]

section \<open>Handlers of the voice-session events\<close>

text \<open>
  \<open>stateChange\<close> listener (lines 65-102).  The guard reads \<open>newState.code\<close> while the
  event it sends reads \<open>newState.closeCode\<close>; both fields are kept.
\<close>

definition onStateChange :: "environ \<Rightarrow> world \<Rightarrow> conn_state \<Rightarrow> conn_state \<Rightarrow> world \<times> unit js_result" where
  "onStateChange x w old new =
     (if cs_status new = CDisconnected then
        (if cs_status old = CDisconnected then (w, Inr ())
         else if cs_code new \<noteq> Some 4015 then
           (case connection (me w) of
              None \<Rightarrow> (w, Inl (TypeError ''destroy''))
            | Some c \<Rightarrow>
                (let w1 = stopTrack (issue Destroy w);
                     w2 = upd_config (\<lambda>k. initial_config (cfg_guildId k)) w1
                 in (send (WebSocketClosedEvent (gid w2) (cs_closeCode new)
                             (closeCodes x (cs_closeCode new)) True) w2, Inr ())))
         else (w, Inr ()))
      else (w, Inr ()))"

text \<open>
  \<open>setInterval(...)\<close> at line 133: the timer is registered under a fresh id, which
  becomes \<open>this.stateInterval\<close>.
\<close>

definition startInterval :: "world \<Rightarrow> world" where
  "startInterval w =
     (let i = nextTimer (gl w)
      in w\<lparr>gl := (gl w)\<lparr>timers := timers (gl w) @ [(i, gid w)], nextTimer := Suc i\<rparr>,
           me := (me w)\<lparr>stateInterval := Some i\<rparr>\<rparr>)"

text \<open>
  \<open>playerStateChange\<close> listener (lines 104-153).  The argument of \<open>debugLog\<close> reads
  \<open>this.config.track.info\<close>, which throws when no track is set.
\<close>

definition onPlayerStateChange ::
  "environ \<Rightarrow> world \<Rightarrow> int \<Rightarrow> player_state \<Rightarrow> player_state \<Rightarrow> world \<times> unit js_result" where
  "onPlayerStateChange x w now old new =
     (if ps_status new = PIdle \<and> ps_status old \<noteq> PIdle then
        (if ps_reason new \<noteq> ''finished'' then (w, Inr ())
         else
           (let w1 = upd_cache (\<lambda>k. k\<lparr>cache_url := None\<rparr>) (stopTrack w)
            in case cfg_track (cfg w1) of
                 None \<Rightarrow> (w1, Inl (TypeError ''info''))
               | Some t \<Rightarrow>
                   (upd_config (\<lambda>k. k\<lparr>cfg_track := None\<rparr>)
                      (send (TrackEndEvent (gid w1) (Some t) Finished) w1), Inr ())))
      else if ps_status old \<noteq> PPaused \<and> ps_status new = PPlaying then
        (if ps_reason new \<noteq> ''requested'' then (w, Inr ())
         else
           (let w1 = upd_cache (\<lambda>k. k\<lparr>cache_startedAt := Some now\<rparr>) w
            in case cfg_track (cfg w1) of
                 None \<Rightarrow> (w1, Inl (TypeError ''info''))
               | Some t \<Rightarrow>
                   (let w2 = w1\<lparr>gl := (gl w1)\<lparr>playingCount := playingCount (gl w1) + 1\<rparr>\<rparr>;
                        w3 = (if 0 < playerUpdateInterval x then startInterval w2 else w2)
                    in (send (TrackStartEvent (gid w3) (Some t)) w3, Inr ()))))
      else (w, Inr ()))"

text \<open>\<open>error\<close> listener (lines 155-181); \<open>cause\<close> is \<open>`${error.name}: ${error.message}`\<close>.\<close>

definition onError :: "world \<Rightarrow> string \<Rightarrow> string \<Rightarrow> world" where
  "onError w ename emsg =
     (let w1 = stopTrack w;
          e = \<lparr>message = emsg, severity = ''fault'', cause = ename @ '': '' @ emsg\<rparr>;
          w2 = send (TrackExceptionEvent (gid w1) (cfg_track (cfg w1)) e) w1;
          w3 = send (TrackEndEvent (gid w2) (cfg_track (cfg w2)) LoadFailed) w2
      in upd_config (\<lambda>k. k\<lparr>cfg_track := None\<rparr>) w3)"

text \<open>The interval callback (lines 133-144), run at time \<open>now\<close>.\<close>

definition onTick :: "world \<Rightarrow> int \<Rightarrow> world \<times> unit js_result" where
  "onTick w now =
     (case connection (me w) of
        None \<Rightarrow> (w, Inl (TypeError ''playerState''))
      | Some c \<Rightarrow>
          (send (PlayerUpdate (gid w) now
                   (if c_playerState c \<in> {PPlaying, PPaused} then getRealTime c else 0)
                   (c_status c = CConnected) (c_ping c)) w, Inr ()))"

section \<open>Asynchronous methods: play and filters\<close>

text \<open>
  The continuations of \<open>play\<close> and \<open>filters\<close>, one per \<open>await\<close>, with the locals
  they need: \<open>oldTrack\<close>, the arguments \<open>track\<close> (the encoded string) and
  \<open>decodedTrack\<close>, the resolved \<open>urlInfo\<close>, the built stream.
  \<^item> \<open>PlayUrl\<close>: \<open>await sources.getTrackURL(decodedTrack)\<close> (line 218);
  \<^item> \<open>PlayFilterRes\<close>: \<open>await filter.getResource(...)\<close> (line 269), with its arguments;
  \<^item> \<open>PlayStream\<close>: \<open>await sources.getTrackStream(...)\<close> inside \<open>getResource\<close> (line 203);
  \<^item> \<open>PlayConnect\<close>: \<open>await waitForEvent(...)\<close> (line 322);
  \<^item> \<open>FiltersRes\<close>, \<open>FiltersConnect\<close>: the same two awaits of \<open>filters\<close> (lines 385, 412).
\<close>

datatype pending =
    PlayUrl "track option" string track_info
  | PlayFilterRes "track option" string track_info url_info filter_request
  | PlayStream "track option" string track_info url_info
  | PlayConnect url_info stream
  | FiltersRes filter_request
  | FiltersConnect stream

text \<open>How an awaited promise settles: fulfilled with the collaborator's answer, or rejected.\<close>

datatype answer =
    AUrl url_result
  | AStream stream_result
  | AResource resource
  | AWaited
  | ARejected js_error

text \<open>
  Where an asynchronous method stands after running up to its next \<open>await\<close>: it
  returned or threw (\<open>Done\<close>), it waits (\<open>Await\<close>), or it can never resume
  (\<open>Hang\<close>: a rejection inside the \<open>new Promise(async (resolve) => ...)\<close> executor of
  \<open>getResource\<close> is swallowed, so the promise \<open>play\<close> awaits never settles).
\<close>

datatype outcome =
    Done "config option js_result"
  | Await pending
  | Hang

text \<open>Lines 324-328: play the stream, remember the protocol, return the config.\<close>

definition finishPlay :: "world \<Rightarrow> url_info \<Rightarrow> stream \<Rightarrow> world \<times> outcome" where
  "finishPlay w ui s =
     (let w1 = upd_cache (\<lambda>k. k\<lparr>cache_protocol := Some (protocol ui)\<rparr>) (issue (Play s) w)
      in (w1, Done (Inr (Some (cfg w1)))))"

text \<open>
  Lines 271/276-322, once the resource is known: stop the old track's bookkeeping,
  then either the failure branch (its first \<open>send\<close> reads
  \<open>this.config.track.userData\<close> after the track was cleared, so it throws before any
  event is sent) or install the track, apply a staged volume and wait for the
  transport unless the UDP secret key is already known.
\<close>

definition afterResource ::
  "world \<Rightarrow> track option \<Rightarrow> string \<Rightarrow> track_info \<Rightarrow> url_info \<Rightarrow> resource \<Rightarrow> world \<times> outcome" where
  "afterResource w old enc dec ui r =
     (let w1 = (if old \<noteq> None then stopTrack w else w)
      in case r of
           ResException e \<Rightarrow>
             (upd_cache (\<lambda>k. k\<lparr>cache_url := None\<rparr>)
                (upd_config (\<lambda>k. k\<lparr>cfg_track := None, cfg_filters := []\<rparr>) w1),
              Done (Inl (TypeError ''userData'')))
         | ResStream s \<Rightarrow>
             (let w2 = upd_config (\<lambda>k. k\<lparr>cfg_track := Some \<lparr>encoded = enc, info = dec\<rparr>\<rparr>) w1;
                  cv = cache_volume (vcache (me w2));
                  w3 = (if cv \<noteq> 100
                        then upd_config (\<lambda>k. k\<lparr>cfg_volume := cv\<rparr>) (issue (SetVolume s cv) w2)
                        else w2)
              in case connection (me w3) of
                   None \<Rightarrow> (w3, Done (Inl (TypeError ''udpInfo'')))
                 | Some c \<Rightarrow> (if c_secretKey c then finishPlay w3 ui s else (w3, Await (PlayConnect ui s)))))"

text \<open>Lines 213-218: the synchronous part of \<open>play(track, decodedTrack, noReplace)\<close>.\<close>

definition play :: "world \<Rightarrow> string \<Rightarrow> track_info \<Rightarrow> bool \<Rightarrow> world \<times> outcome" where
  "play w enc dec noReplace =
     (if noReplace \<and> cfg_track (cfg w) \<noteq> None then (w, Done (Inr (Some (cfg w))))
      else (w, Await (PlayUrl (cfg_track (cfg w)) enc dec)))"

text \<open>Lines 220-277: what \<open>play\<close> does once \<open>getTrackURL\<close> has answered.\<close>

definition afterUrl ::
  "environ \<Rightarrow> world \<Rightarrow> track option \<Rightarrow> string \<Rightarrow> track_info \<Rightarrow> url_result \<Rightarrow> world \<times> outcome" where
  "afterUrl x w old enc dec ur =
     (case ur of
        UrlException e \<Rightarrow>
          (let w1 = upd_cache (\<lambda>k. k\<lparr>cache_url := None\<rparr>) (upd_config (\<lambda>k. k\<lparr>cfg_track := None\<rparr>) w)
           in (send (TrackExceptionEvent (gid w1) (Some \<lparr>encoded = enc, info = dec\<rparr>) e) w1,
               Done (Inl (TypeError ''userData''))))
      | UrlOk ui \<Rightarrow>
          (let w1 = (case old of
                       Some ot \<Rightarrow> (if truthy_str (encoded ot) then send (TrackEndEvent (gid w) (Some ot) Replaced) w else w)
                     | None \<Rightarrow> w)
           in if cfg_filters (cfg w1) \<noteq> [] then
                (let w2 = upd_config (\<lambda>k. k\<lparr>cfg_filters := configure x (cfg_filters k)\<rparr>) w1;
                     rq = \<lparr>fr_guild = gid w2, fr_info = dec, fr_protocol = Some (protocol ui),
                           fr_url = Some (url ui), fr_seek = None, fr_endTime = None,
                           fr_additional = additionalData ui\<rparr>
                 in (w2, Await (PlayFilterRes old enc dec ui rq)))
              else (upd_cache (\<lambda>k. k\<lparr>cache_url := Some (url ui)\<rparr>) w1, Await (PlayStream old enc dec ui))))"

text \<open>
  \<open>filters(filters)\<close> (lines 375-385), up to its first \<open>await\<close>; the filter object
  is the key/value list \<open>f\<close>, whose \<open>endTime\<close> entry is passed on.
\<close>

definition filters :: "environ \<Rightarrow> world \<Rightarrow> filters \<Rightarrow> world \<times> outcome" where
  "filters x w f =
     (case connection (me w) of
        None \<Rightarrow> (w, Done (Inl (TypeError ''playerState'')))
      | Some c \<Rightarrow>
          (if c_playerState c \<noteq> PPlaying \<or> \<not> filtersEnabled x then (w, Done (Inr (Some (cfg w))))
           else
             (let w1 = upd_config (\<lambda>k. k\<lparr>cfg_filters := configure x f\<rparr>) w
              in case cfg_track (cfg w1) of
                   None \<Rightarrow> (w1, Done (Inr (Some (cfg w1))))
                 | Some t \<Rightarrow>
                     (w1, Await (FiltersRes
                        \<lparr>fr_guild = gid w1, fr_info = info t,
                         fr_protocol = cache_protocol (vcache (me w1)),
                         fr_url = cache_url (vcache (me w1)),
                         fr_seek = Some (getRealTime c), fr_endTime = map_of f ''endTime'',
                         fr_additional = None\<rparr>)))))"

text \<open>
  Lines 387-416, once the filter pipeline has answered.  On failure the exception
  event carries the track just cleared (\<open>null\<close>), and the end event's
  \<open>this.config.track.info\<close> throws.
\<close>

definition filtersAfterRes :: "world \<Rightarrow> resource \<Rightarrow> world \<times> outcome" where
  "filtersAfterRes w r =
     (case r of
        ResException e \<Rightarrow>
          (let w1 = upd_cache (\<lambda>k. k\<lparr>cache_url := None\<rparr>)
                      (upd_config (\<lambda>k. k\<lparr>cfg_track := None, cfg_filters := []\<rparr>) w)
           in (send (TrackExceptionEvent (gid w1) (cfg_track (cfg w1)) e) w1,
               Done (Inl (TypeError ''info''))))
      | ResStream s \<Rightarrow>
          (case connection (me w) of
             None \<Rightarrow> (w, Done (Inl (TypeError ''udpInfo'')))
           | Some c \<Rightarrow>
               (if c_secretKey c then
                  (let w1 = issue (Play s) w in (w1, Done (Inr (Some (cfg w1)))))
                else (w, Await (FiltersConnect s)))))"

text \<open>One continuation, run on the settled value of its \<open>await\<close>.\<close>

fun resume :: "environ \<Rightarrow> world \<Rightarrow> pending \<Rightarrow> answer \<Rightarrow> world \<times> outcome" where
  "resume x w (PlayUrl old enc dec) (AUrl ur) = afterUrl x w old enc dec ur"
| "resume x w (PlayFilterRes old enc dec ui rq) (AResource r) = afterResource w old enc dec ui r"
| "resume x w (PlayStream old enc dec ui) (AStream (StreamException e)) =
     afterResource w old enc dec ui (ResException e)"
| "resume x w (PlayStream old enc dec ui) (AStream (StreamOk st)) =
     afterResource (upd_cache (\<lambda>k. k\<lparr>cache_url := Some (url ui)\<rparr>) w) old enc dec ui
       (ResStream (createAudioResource x st (format ui)))"
| "resume x w (PlayStream old enc dec ui) (ARejected e) = (w, Hang)"
| "resume x w (PlayConnect ui s) AWaited = finishPlay w ui s"
| "resume x w (FiltersRes rq) (AResource r) = filtersAfterRes w r"
| "resume x w (FiltersConnect s) AWaited = (let w1 = issue (Play s) w in (w1, Done (Inr (Some (cfg w1)))))"
| "resume x w p (ARejected e) = (w, Done (Inl e))"
| "resume x w p a = (w, Done (Inl (TypeError ''unexpected settlement'')))"

text \<open>
  An asynchronous method run with no other event in between: the answers of its
  awaits, in order.  Running out of answers leaves it waiting.
\<close>

fun drive :: "environ \<Rightarrow> world \<times> outcome \<Rightarrow> answer list \<Rightarrow> world \<times> outcome" where
  "drive x (w, Await p) (a # as) = drive x (resume x w p a) as"
| "drive x wo as = wo"

declare onStateChange_def [vc_defs] startInterval_def [vc_defs] onPlayerStateChange_def [vc_defs]
  onError_def [vc_defs] onTick_def [vc_defs] finishPlay_def [vc_defs] afterResource_def [vc_defs]
  play_def [vc_defs] afterUrl_def [vc_defs] filters_def [vc_defs] filtersAfterRes_def [vc_defs]

section \<open>Derived notions used in the statements\<close>

text \<open>
  The events lines 250-260 of \<open>play\<close> send for the track being replaced: a
  \<open>TrackEndEvent\<close> with reason \<open>replaced\<close> when the old track's encoded string is truthy.
\<close>

definition replacedEvents :: "guild_id \<Rightarrow> track option \<Rightarrow> out_msg list" where
  "replacedEvents g old =
     (case old of
        Some t \<Rightarrow> (if truthy_str (encoded t) then [TrackEndEvent g (Some t) Replaced] else [])
      | None \<Rightarrow> [])"

text \<open>
  A call has settled once its outcome is no longer waiting on an \<open>await\<close>; the rank
  of a continuation bounds the awaits still ahead of it.
\<close>

fun settled :: "outcome \<Rightarrow> bool" where
  "settled (Await p) = False"
| "settled _ = True"

fun pending_rank :: "pending \<Rightarrow> nat" where
  "pending_rank (PlayUrl old enc dec) = 3"
| "pending_rank (PlayFilterRes old enc dec ui rq) = 2"
| "pending_rank (PlayStream old enc dec ui) = 2"
| "pending_rank (PlayConnect ui s) = 1"
| "pending_rank (FiltersRes rq) = 2"
| "pending_rank (FiltersConnect s) = 1"

section \<open>Process start and example values\<close>

text \<open>The process-wide state when voiceHandler.js is loaded (lines 13-14).\<close>

definition initial_glob :: glob where
  "initial_glob =
     \<lparr>playersCount = 0, playingCount = 0, players = {}, outbox = [], timers = [], nextTimer = 0\<rparr>"

text \<open>
  Concrete values used by the witness theorems: a connected voice session whose UDP
  key is known, an environment with a 5-second telemetry interval, and tracks named
  by a string.
\<close>

definition ex_info :: "string \<Rightarrow> track_info" where
  "ex_info n =
     \<lparr>trackIdentifier = n, isSeekable = True, author = ''artist'', length_ms = 180000,
      isStream = False, position = 0, title = n, uri = ''spotify:track:'' @ n,
      artworkUrl = [], isrc = None, sourceName = ''spotify''\<rparr>"

definition ex_track :: "string \<Rightarrow> track" where
  "ex_track n = \<lparr>encoded = ''enc-'' @ n, info = ex_info n\<rparr>"

definition ex_url :: "string \<Rightarrow> url_info" where
  "ex_url n = \<lparr>url = ''https://media/'' @ n, protocol = ''https'', format = ''opus'', additionalData = None\<rparr>"

definition ex_conn :: conn where
  "ex_conn =
     \<lparr>c_status = CConnected, c_playerState = PIdle, c_audioStream = None, c_secretKey = True,
      c_ws = False, c_packetsExpected = 0, c_ping = 30\<rparr>"

definition ex_env :: environ where
  "ex_env =
     \<lparr>playerUpdateInterval = 5000, filtersEnabled = True, threshold = 0,
      closeCodes = (\<lambda>c. if c = Some 4014 then Some ''Disconnected'' else None),
      configure = (\<lambda>f. f), createAudioResource = (\<lambda>s f. s), userId = ''bot''\<rparr>"

text \<open>A guild's VoiceConnection right after \<open>new VoiceConnection(g, client)\<close> and \<open>setup()\<close>.\<close>

definition ex_world :: "guild_id \<Rightarrow> world" where
  "ex_world g = setup_vc ex_env \<lparr>gl = initial_glob, me = new_vc g\<rparr> ex_conn"

definition ex_exc :: exc where
  "ex_exc = \<lparr>message = ''No stream found'', severity = ''fault'', cause = ''resolver''\<rparr>"

definition ex_creds :: voice_creds where
  "ex_creds = \<lparr>token = Some ''tok'', endpoint = Some ''eu.voice'', sessionId = Some ''sess''\<rparr>"

text \<open>The same guild while a track plays: 250 packets sent, a live audio stream.\<close>

definition ex_conn_playing :: conn where
  "ex_conn_playing = ex_conn\<lparr>c_playerState := PPlaying, c_audioStream := Some 1, c_packetsExpected := 250\<rparr>"

definition ex_playing :: "guild_id \<Rightarrow> string \<Rightarrow> world" where
  "ex_playing g n =
     upd_config (\<lambda>k. k\<lparr>cfg_track := Some (ex_track n)\<rparr>)
       (setup_vc ex_env \<lparr>gl = initial_glob, me = new_vc g\<rparr> ex_conn_playing)"

lemmas ex_defs = ex_info_def ex_track_def ex_url_def ex_conn_def ex_env_def ex_world_def
  initial_glob_def new_vc_def initial_config_def ex_conn_playing_def ex_playing_def
  ex_exc_def ex_creds_def

section \<open>Helper lemmas\<close>

text \<open>What \<open>_stopTrack\<close> changes and what it leaves alone, read field by field.\<close>

lemma stopTrack_sel [simp]:
  "outbox (gl (stopTrack w)) = outbox (gl w)"
  "playingCount (gl (stopTrack w)) = playingCount (gl w) - 1"
  "playersCount (gl (stopTrack w)) = playersCount (gl w)"
  "players (gl (stopTrack w)) = players (gl w)"
  "nextTimer (gl (stopTrack w)) = nextTimer (gl w)"
  "timers (gl (stopTrack w)) =
     (case stateInterval (me w) of None \<Rightarrow> timers (gl w) | Some i \<Rightarrow> filter (\<lambda>t. fst t \<noteq> i) (timers (gl w)))"
  "connection (me (stopTrack w)) = connection (me w)"
  "vcache (me (stopTrack w)) = vcache (me w)"
  "stateInterval (me (stopTrack w)) = stateInterval (me w)"
  "issued (me (stopTrack w)) = issued (me w)"
  "config (me (stopTrack w)) = (config (me w))\<lparr>cfg_state := Some idle_pstate\<rparr>"
  by (simp_all add: stopTrack_def upd_config_def Let_def split: option.split)

lemma afterResource_rank:
  "afterResource w old enc dec ui r = (w', Await p) \<Longrightarrow> pending_rank p < 2"
  by (auto simp: afterResource_def finishPlay_def Let_def split: resource.splits option.splits if_splits)

lemma afterUrl_rank:
  "afterUrl x w old enc dec ur = (w', Await p) \<Longrightarrow> pending_rank p < 3"
  by (auto simp: afterUrl_def Let_def split: url_result.splits option.splits if_splits)

lemma filtersAfterRes_rank:
  "filtersAfterRes w r = (w', Await p) \<Longrightarrow> pending_rank p < 2"
  by (auto simp: filtersAfterRes_def Let_def split: resource.splits option.splits if_splits)

lemma resume_rank:
  "resume x w p a = (w', Await p') \<Longrightarrow> pending_rank p' < pending_rank p"
  by (induction x w p a rule: resume.induct)
     (auto dest: afterUrl_rank afterResource_rank filtersAfterRes_rank simp: Let_def finishPlay_def)

lemma drive_settles:
  "pending_rank p \<le> length as \<Longrightarrow> settled (snd (drive x (w, Await p) as))"
proof (induction as arbitrary: w p)
  case Nil then show ?case by (cases p) auto
next
  case (Cons a as)
  obtain w' oc where r: "resume x w p a = (w', oc)" by fastforce
  show ?case
  proof (cases oc)
    case (Await p')
    with r Cons show ?thesis using resume_rank[of x w p a w' p'] by simp
  qed (use r in simp_all)
qed

section \<open>Properties of play\<close>

text \<open>
  C1. Replacing a playing track: when the resolver and the stream both succeed and
  the UDP key is known, \<open>play\<close> sends exactly one \<open>TrackEndEvent\<close> with reason
  \<open>replaced\<close> for the old track, installs the new track, applies a staged volume,
  plays the new stream, stops the old track's bookkeeping once and returns the config.
\<close>

theorem play_replaces_track:
  assumes "connection (me w) = Some c" "c_secretKey c" "cfg_track (cfg w) = Some t"
    "truthy_str (encoded t)" "cfg_filters (cfg w) = []"
  shows "case drive x (play w enc dec False) [AUrl (UrlOk ui), AStream (StreamOk st)] of (w', oc) \<Rightarrow>
     outbox (gl w') = outbox (gl w) @ [TrackEndEvent (gid w) (Some t) Replaced] \<and>
     cfg_track (cfg w') = Some \<lparr>encoded = enc, info = dec\<rparr> \<and>
     issued (me w') = issued (me w) @
        (let cv = cache_volume (vcache (me w))
         in if cv \<noteq> 100 then [SetVolume (createAudioResource x st (format ui)) cv] else []) @
        [Play (createAudioResource x st (format ui))] \<and>
     playingCount (gl w') = playingCount (gl w) - 1 \<and>
     cache_url (vcache (me w')) = Some (url ui) \<and>
     oc = Done (Inr (Some (cfg w')))"
  using assms by (simp add: vc_defs vc_upd Let_def split: option.splits)

theorem play_replaces_track_witness:
  "case drive ex_env (play (ex_playing ''G1'' ''A'') ''enc-B'' (ex_info ''B'') False)
          [AUrl (UrlOk (ex_url ''B'')), AStream (StreamOk 7)] of (w', oc) \<Rightarrow>
     outbox (gl w') = [TrackEndEvent ''G1'' (Some (ex_track ''A'')) Replaced] \<and>
     cfg_track (cfg w') = Some (ex_track ''B'') \<and> issued (me w') = [Join ''G1'' ''bot'', Play 7] \<and>
     playingCount (gl w') = -1"
  using play_replaces_track[where w = "ex_playing ''G1'' ''A''" and c = ex_conn_playing
      and t = "ex_track ''A''" and x = ex_env and enc = "''enc-B''" and dec = "ex_info ''B''"
      and ui = "ex_url ''B''" and st = 7]
  by (simp add: ex_defs vc_defs vc_upd Let_def stopTrack_def)

text \<open>
  C2. Resolver failure: \<open>play\<close> clears the track and the cached URL, sends one
  \<open>TrackExceptionEvent\<close> for the new track and then throws a \<open>TypeError\<close> (line 242
  reads \<open>this.config.track.userData\<close> after line 221 set the track to null), so the
  \<open>TrackEndEvent\<close> with reason \<open>loadFailed\<close> is never sent.  The telemetry timer
  and the playing counter of the old track are left as they were.
\<close>

theorem play_url_failure:
  "case drive x (play w enc dec False) [AUrl (UrlException e)] of (w', oc) \<Rightarrow>
     outbox (gl w') = outbox (gl w) @ [TrackExceptionEvent (gid w) (Some \<lparr>encoded = enc, info = dec\<rparr>) e] \<and>
     cfg_track (cfg w') = None \<and> cache_url (vcache (me w')) = None \<and>
     playingCount (gl w') = playingCount (gl w) \<and> timers (gl w') = timers (gl w) \<and>
     oc = Done (Inl (TypeError ''userData''))"
  by (simp add: vc_defs vc_upd Let_def)

text \<open>
  C3. Build failure on the direct path: after a successful resolution the old track
  (if any) gets its \<open>replaced\<close> event and its bookkeeping is stopped; when the stream
  cannot be built the track and the filters are cleared and \<open>play\<close> throws before
  sending anything, so neither \<open>TrackExceptionEvent\<close> nor \<open>TrackEndEvent(loadFailed)\<close>
  reaches the client.
\<close>

theorem play_build_failure:
  assumes "cfg_filters (cfg w) = []"
  shows "case drive x (play w enc dec False) [AUrl (UrlOk ui), AStream (StreamException e)] of (w', oc) \<Rightarrow>
     outbox (gl w') = outbox (gl w) @ replacedEvents (gid w) (cfg_track (cfg w)) \<and>
     cfg_track (cfg w') = None \<and> cfg_filters (cfg w') = [] \<and> cache_url (vcache (me w')) = None \<and>
     playingCount (gl w') = playingCount (gl w) - (if cfg_track (cfg w) = None then 0 else 1) \<and>
     oc = Done (Inl (TypeError ''userData''))"
  using assms by (simp add: vc_defs vc_upd Let_def replacedEvents_def split: option.splits)

theorem play_build_failure_witness:
  "case drive ex_env (play (ex_playing ''G1'' ''A'') ''enc-B'' (ex_info ''B'') False)
          [AUrl (UrlOk (ex_url ''B'')), AStream (StreamException ex_exc)] of (w', oc) \<Rightarrow>
     outbox (gl w') = [TrackEndEvent ''G1'' (Some (ex_track ''A'')) Replaced] \<and>
     cfg_track (cfg w') = None \<and> playingCount (gl w') = -1 \<and> oc = Done (Inl (TypeError ''userData''))"
  using play_build_failure[where w = "ex_playing ''G1'' ''A''" and x = ex_env and enc = "''enc-B''"
      and dec = "ex_info ''B''" and ui = "ex_url ''B''" and e = ex_exc]
  by (simp add: ex_defs vc_defs vc_upd Let_def stopTrack_def replacedEvents_def)

section \<open>Properties of the voice-session event handlers\<close>

text \<open>
  C4. Genuine starts only: a \<open>playerStateChange\<close> appends a \<open>TrackStartEvent\<close> exactly
  when the player leaves a non-paused state for \<open>playing\<close> with reason
  \<open>requested\<close> and a track is set; a resume from pause never announces a start.
\<close>

theorem track_start_only_genuine:
  "(\<exists>t. outbox (gl (fst (onPlayerStateChange x w now old new))) = outbox (gl w) @ [TrackStartEvent (gid w) t])
   \<longleftrightarrow> ps_status old \<noteq> PPaused \<and> ps_status new = PPlaying \<and> ps_reason new = ''requested''
       \<and> cfg_track (cfg w) \<noteq> None"
  by (auto simp add: vc_defs vc_upd Let_def split: option.splits)

text \<open>
  C5. Abnormal disconnect: when the transport becomes disconnected from another
  status and \<open>newState.code\<close> is not 4015, the handler destroys the session, stops
  the track's bookkeeping, resets the config to its initial shape for the same guild
  and sends one \<open>WebSocketClosedEvent\<close> carrying \<open>newState.closeCode\<close>.  The guild stays
  in \<open>client.players\<close>.  Because the guard reads \<open>code\<close> and not \<open>closeCode\<close>, a
  session-replaced close (closeCode 4015) without a \<open>code\<close> field is torn down too.
\<close>

theorem disconnect_teardown:
  assumes "cs_status new = CDisconnected" "cs_status old \<noteq> CDisconnected"
    "cs_code new \<noteq> Some 4015" "connection (me w) = Some c"
  shows "case onStateChange x w old new of (w', r) \<Rightarrow>
     outbox (gl w') = outbox (gl w) @
        [WebSocketClosedEvent (gid w) (cs_closeCode new) (closeCodes x (cs_closeCode new)) True] \<and>
     cfg w' = initial_config (gid w) \<and> issued (me w') = issued (me w) @ [Destroy] \<and>
     playingCount (gl w') = playingCount (gl w) - 1 \<and> players (gl w') = players (gl w) \<and> r = Inr ()"
  using assms by (simp add: vc_defs vc_upd Let_def initial_config_def)

theorem disconnect_teardown_witness:
  "case onStateChange ex_env (ex_playing ''G1'' ''A'')
          \<lparr>cs_status = CConnected, cs_code = None, cs_closeCode = None\<rparr>
          \<lparr>cs_status = CDisconnected, cs_code = None, cs_closeCode = Some 4015\<rparr> of (w', r) \<Rightarrow>
     outbox (gl w') = [WebSocketClosedEvent ''G1'' (Some 4015) None True] \<and>
     cfg w' = initial_config ''G1'' \<and> r = Inr ()"
  using disconnect_teardown[where w = "ex_playing ''G1'' ''A''" and c = ex_conn_playing and x = ex_env
      and old = "\<lparr>cs_status = CConnected, cs_code = None, cs_closeCode = None\<rparr>"
      and new = "\<lparr>cs_status = CDisconnected, cs_code = None, cs_closeCode = Some 4015\<rparr>"]
  by (simp add: ex_defs vc_defs vc_upd Let_def stopTrack_def)



text \<open>
  C7. End of a track: a transition into \<open>idle\<close> with reason \<open>finished\<close> stops the
  track's bookkeeping, forgets the cached URL, sends one \<open>TrackEndEvent\<close> with reason
  \<open>finished\<close> for the track that was playing, and then clears the track.
\<close>

theorem finished_ends_track:
  assumes "ps_status new = PIdle" "ps_status old \<noteq> PIdle" "ps_reason new = ''finished''"
    "cfg_track (cfg w) = Some t"
  shows "case onPlayerStateChange x w now old new of (w', r) \<Rightarrow>
     outbox (gl w') = outbox (gl w) @ [TrackEndEvent (gid w) (Some t) Finished] \<and>
     cfg_track (cfg w') = None \<and> cache_url (vcache (me w')) = None \<and>
     playingCount (gl w') = playingCount (gl w) - 1 \<and> r = Inr ()"
  using assms by (simp add: vc_defs vc_upd Let_def)

theorem finished_ends_track_witness:
  "case onPlayerStateChange ex_env (ex_playing ''G1'' ''A'') 1000
          \<lparr>ps_status = PPlaying, ps_reason = ''requested''\<rparr>
          \<lparr>ps_status = PIdle, ps_reason = ''finished''\<rparr> of (w', r) \<Rightarrow>
     outbox (gl w') = [TrackEndEvent ''G1'' (Some (ex_track ''A'')) Finished] \<and>
     cfg_track (cfg w') = None \<and> r = Inr ()"
  using finished_ends_track[where w = "ex_playing ''G1'' ''A''" and t = "ex_track ''A''"
      and x = ex_env and now = 1000
      and old = "\<lparr>ps_status = PPlaying, ps_reason = ''requested''\<rparr>"
      and new = "\<lparr>ps_status = PIdle, ps_reason = ''finished''\<rparr>"]
  by (simp add: ex_defs vc_defs vc_upd Let_def stopTrack_def)

text \<open>
  C8. Stream error: the \<open>error\<close> listener stops the track's bookkeeping, sends a
  \<open>TrackExceptionEvent\<close> with severity \<open>fault\<close> immediately followed by a
  \<open>TrackEndEvent\<close> with reason \<open>loadFailed\<close>, both for the current track, and clears it.
\<close>

theorem error_exception_then_end:
  "outbox (gl (onError w en em)) = outbox (gl w) @
       [TrackExceptionEvent (gid w) (cfg_track (cfg w)) \<lparr>message = em, severity = ''fault'', cause = en @ '': '' @ em\<rparr>,
        TrackEndEvent (gid w) (cfg_track (cfg w)) LoadFailed] \<and>
   cfg_track (cfg (onError w en em)) = None \<and>
   playingCount (gl (onError w en em)) = playingCount (gl w) - 1"
  by (simp add: vc_defs vc_upd Let_def)

section \<open>Properties of the simple commands\<close>

text \<open>C9. \<open>stop()\<close> on an idle session is a no-op: no event, no change, the config returned.\<close>

theorem stop_idle_noop:
  assumes "cfg_track (cfg w) = None"
  shows "stop w = (w, Inr (Some (cfg w)))"
  using assms by (simp add: stop_def)

theorem stop_idle_noop_witness:
  "stop (ex_world ''G1'') = (ex_world ''G1'', Inr (Some (cfg (ex_world ''G1''))))"
  using stop_idle_noop[where w = "ex_world ''G1''"]
  by (simp add: ex_defs vc_defs vc_upd Let_def stopTrack_def)

text \<open>
  C10. \<open>stop()\<close> on a live track sends one \<open>TrackEndEvent\<close> with reason \<open>stopped\<close>,
  stops the transport stream if one is active, clears the track, the filters and the
  cached URL, stops the track's bookkeeping and returns \<open>undefined\<close>.
\<close>

theorem stop_active:
  assumes "cfg_track (cfg w) = Some t" "connection (me w) = Some c"
  shows "case stop w of (w', r) \<Rightarrow>
     outbox (gl w') = outbox (gl w) @ [TrackEndEvent (gid w) (Some t) Stopped] \<and>
     issued (me w') = issued (me w) @ (if c_audioStream c = None then [] else [Stop]) \<and>
     cfg_track (cfg w') = None \<and> cfg_filters (cfg w') = [] \<and> cache_url (vcache (me w')) = None \<and>
     playingCount (gl w') = playingCount (gl w) - 1 \<and> r = Inr None"
  using assms by (simp add: vc_defs vc_upd Let_def split: option.splits)

theorem stop_active_witness:
  "case stop (ex_playing ''G1'' ''A'') of (w', r) \<Rightarrow>
     outbox (gl w') = [TrackEndEvent ''G1'' (Some (ex_track ''A'')) Stopped] \<and>
     issued (me w') = [Join ''G1'' ''bot'', Stop] \<and> playingCount (gl w') = -1 \<and> r = Inr None"
  using stop_active[where w = "ex_playing ''G1'' ''A''" and t = "ex_track ''A''" and c = ex_conn_playing]
  by (simp add: ex_defs vc_defs vc_upd Let_def stopTrack_def)

text \<open>
  C11. Volume staged while idle: \<open>volume(v)\<close> with no audio stream only records
  \<open>v\<close> in the cache; the next track that starts successfully gets \<open>setVolume(v)\<close>
  before it is played and the config reports \<open>v\<close>.
\<close>

theorem volume_staged_then_applied:
  assumes "connection (me w) = Some c" "c_audioStream c = None" "c_secretKey c"
    "cfg_filters (cfg w) = []" "v \<noteq> 100"
  shows "case volume w v of (w1, r1) \<Rightarrow>
     case drive x (play w1 enc dec False) [AUrl (UrlOk ui), AStream (StreamOk st)] of (w2, oc) \<Rightarrow>
       r1 = Inr (Some (cfg w)) \<and> cfg_volume (cfg w2) = v \<and>
       issued (me w2) = issued (me w) @ [SetVolume (createAudioResource x st (format ui)) v,
                                          Play (createAudioResource x st (format ui))]"
  using assms by (auto simp add: vc_defs vc_upd Let_def split: option.splits)

theorem volume_staged_then_applied_witness:
  "case volume (ex_world ''G1'') 50 of (w1, r1) \<Rightarrow>
     case drive ex_env (play w1 ''enc-B'' (ex_info ''B'') False)
            [AUrl (UrlOk (ex_url ''B'')), AStream (StreamOk 7)] of (w2, oc) \<Rightarrow>
       cfg_volume (cfg w2) = 50 \<and> issued (me w2) = [Join ''G1'' ''bot'', SetVolume 7 50, Play 7]"
  using volume_staged_then_applied[where w = "ex_world ''G1''" and c = ex_conn and v = 50
      and x = ex_env and enc = "''enc-B''" and dec = "ex_info ''B''" and ui = "ex_url ''B''" and st = 7]
  by (simp add: ex_defs vc_defs vc_upd Let_def stopTrack_def)

text \<open>
  C12. The staged volume outlives the stream it was staged for: \<open>volume(u)\<close> on a live
  stream sets the config's volume to \<open>u\<close> but leaves the cache untouched, so the next
  successful \<open>play\<close> applies the old staged value \<open>v\<close> again and the config reports
  \<open>v\<close>, overriding \<open>u\<close>.
\<close>

theorem live_volume_overridden_by_staged:
  assumes "connection (me w) = Some c" "c_audioStream c = Some live" "c_secretKey c"
    "cfg_filters (cfg w) = []" "cache_volume (vcache (me w)) = v" "v \<noteq> 100"
  shows "case volume w u of (w1, r1) \<Rightarrow>
     case drive x (play w1 enc dec False) [AUrl (UrlOk ui), AStream (StreamOk st)] of (w2, oc) \<Rightarrow>
       cfg_volume (cfg w1) = u \<and> cfg_volume (cfg w2) = v"
  using assms by (simp add: vc_defs vc_upd Let_def split: option.splits)

theorem live_volume_overridden_by_staged_witness:
  "case volume (upd_cache (\<lambda>k. k\<lparr>cache_volume := 50\<rparr>) (ex_playing ''G1'' ''A'')) 80 of (w1, r1) \<Rightarrow>
     case drive ex_env (play w1 ''enc-B'' (ex_info ''B'') False)
            [AUrl (UrlOk (ex_url ''B'')), AStream (StreamOk 7)] of (w2, oc) \<Rightarrow>
       cfg_volume (cfg w1) = 80 \<and> cfg_volume (cfg w2) = 50"
  using live_volume_overridden_by_staged[where w = "upd_cache (\<lambda>k. k\<lparr>cache_volume := 50\<rparr>) (ex_playing ''G1'' ''A'')"
      and c = ex_conn_playing and live = 1 and v = 50 and u = 80 and x = ex_env and enc = "''enc-B''"
      and dec = "ex_info ''B''" and ui = "ex_url ''B''" and st = 7]
  by (simp add: ex_defs vc_defs vc_upd Let_def stopTrack_def)

section \<open>Properties of filter reconfiguration\<close>

text \<open>
  C13. Filter reconfiguration while playing asks the filter pipeline to restart the
  current track at the real-time position \<open>20 * packetsExpected\<close> ms, from the cached
  protocol and URL, after storing the normalised filters.
\<close>

theorem filters_seek_at_realtime:
  assumes "connection (me w) = Some c" "c_playerState c = PPlaying" "filtersEnabled x"
    "cfg_track (cfg w) = Some t"
  shows "filters x w f = (upd_config (\<lambda>k. k\<lparr>cfg_filters := configure x f\<rparr>) w,
     Await (FiltersRes \<lparr>fr_guild = gid w, fr_info = info t,
        fr_protocol = cache_protocol (vcache (me w)), fr_url = cache_url (vcache (me w)),
        fr_seek = Some (20 * c_packetsExpected c), fr_endTime = map_of f ''endTime'',
        fr_additional = None\<rparr>))"
  using assms by (simp add: vc_defs vc_upd getRealTime_def)

theorem filters_seek_at_realtime_witness:
  "snd (filters ex_env (ex_playing ''G1'' ''A'') [(''timescale'', ''1.5'')]) =
     Await (FiltersRes \<lparr>fr_guild = ''G1'', fr_info = ex_info ''A'', fr_protocol = None, fr_url = None,
        fr_seek = Some 5000, fr_endTime = None, fr_additional = None\<rparr>)"
  using filters_seek_at_realtime[where w = "ex_playing ''G1'' ''A''" and c = ex_conn_playing
      and x = ex_env and t = "ex_track ''A''" and f = "[(''timescale'', ''1.5'')]"]
  by (simp add: ex_defs vc_defs vc_upd)

text \<open>
  C14. Filter pipeline failure: \<open>filters\<close> clears the track and the filters, sends a
  \<open>TrackExceptionEvent\<close> whose track is \<open>null\<close> (it was cleared just before) and throws
  at line 404, so no \<open>TrackEndEvent(loadFailed)\<close> is sent and the playing counter
  is not decremented.
\<close>

theorem filters_failure_no_end:
  assumes "connection (me w) = Some c" "c_playerState c = PPlaying" "filtersEnabled x"
    "cfg_track (cfg w) = Some t"
  shows "case drive x (filters x w f) [AResource (ResException e)] of (w', oc) \<Rightarrow>
     outbox (gl w') = outbox (gl w) @ [TrackExceptionEvent (gid w) None e] \<and>
     cfg_track (cfg w') = None \<and> playingCount (gl w') = playingCount (gl w) \<and>
     oc = Done (Inl (TypeError ''info''))"
  using assms by (simp add: vc_defs vc_upd Let_def)

theorem filters_failure_no_end_witness:
  "case drive ex_env (filters ex_env (ex_playing ''G1'' ''A'') [(''timescale'', ''1.5'')])
          [AResource (ResException ex_exc)] of (w', oc) \<Rightarrow>
     outbox (gl w') = [TrackExceptionEvent ''G1'' None ex_exc] \<and> cfg_track (cfg w') = None \<and>
     oc = Done (Inl (TypeError ''info''))"
  using filters_failure_no_end[where w = "ex_playing ''G1'' ''A''" and c = ex_conn_playing
      and x = ex_env and t = "ex_track ''A''" and f = "[(''timescale'', ''1.5'')]" and e = ex_exc]
  by (simp add: ex_defs vc_defs vc_upd)

text \<open>
  C15. A track started through the filter pipeline does not refresh the cached URL
  (only the direct path assigns \<open>this.cache.url\<close>), so a later filter change
  re-requests the previous track's URL; the protocol is refreshed.
\<close>

theorem filter_play_keeps_cached_url:
  assumes "connection (me w) = Some c" "c_secretKey c" "cfg_filters (cfg w) \<noteq> []"
  shows "case drive x (play w enc dec False) [AUrl (UrlOk ui), AResource (ResStream st)] of (w', oc) \<Rightarrow>
     cache_url (vcache (me w')) = cache_url (vcache (me w)) \<and>
     cache_protocol (vcache (me w')) = Some (protocol ui) \<and>
     cfg_track (cfg w') = Some \<lparr>encoded = enc, info = dec\<rparr> \<and> oc = Done (Inr (Some (cfg w')))"
  using assms by (auto simp add: vc_defs vc_upd Let_def split: option.splits)

theorem filter_play_keeps_cached_url_witness:
  "case drive ex_env (play (upd_cache (\<lambda>k. k\<lparr>cache_url := Some ''https://media/A''\<rparr>)
            (upd_config (\<lambda>k. k\<lparr>cfg_filters := [(''timescale'', ''1.5'')]\<rparr>) (ex_playing ''G1'' ''A'')))
            ''enc-B'' (ex_info ''B'') False)
          [AUrl (UrlOk (ex_url ''B'')), AResource (ResStream 7)] of (w', oc) \<Rightarrow>
     cache_url (vcache (me w')) = Some ''https://media/A'' \<and> cfg_track (cfg w') = Some (ex_track ''B'')"
  using filter_play_keeps_cached_url[where w = "upd_cache (\<lambda>k. k\<lparr>cache_url := Some ''https://media/A''\<rparr>)
            (upd_config (\<lambda>k. k\<lparr>cfg_filters := [(''timescale'', ''1.5'')]\<rparr>) (ex_playing ''G1'' ''A''))"
      and c = ex_conn_playing and x = ex_env and enc = "''enc-B''" and dec = "ex_info ''B''"
      and ui = "ex_url ''B''" and st = 7]
  by (simp add: ex_defs vc_defs vc_upd Let_def stopTrack_def)



section \<open>Further properties\<close>




text \<open>
  C19. A \<open>finished\<close> transition while no track is set (after \<open>stop()\<close> or an error)
  still runs \<open>_stopTrack\<close> and then throws a \<open>TypeError\<close> reading
  \<open>this.config.track.info\<close>; nothing is sent.
\<close>

theorem finished_without_track_throws:
  assumes "ps_status new = PIdle" "ps_status old \<noteq> PIdle" "ps_reason new = ''finished''"
    "cfg_track (cfg w) = None"
  shows "case onPlayerStateChange x w now old new of (w', r) \<Rightarrow>
     outbox (gl w') = outbox (gl w) \<and> playingCount (gl w') = playingCount (gl w) - 1 \<and>
     r = Inl (TypeError ''info'')"
  using assms by (simp add: vc_defs vc_upd Let_def)

theorem finished_without_track_throws_witness:
  "case onPlayerStateChange ex_env (ex_world ''G1'') 1000
          \<lparr>ps_status = PPlaying, ps_reason = ''requested''\<rparr>
          \<lparr>ps_status = PIdle, ps_reason = ''finished''\<rparr> of (w', r) \<Rightarrow>
     outbox (gl w') = [] \<and> playingCount (gl w') = -1 \<and> r = Inl (TypeError ''info'')"
  using finished_without_track_throws[where w = "ex_world ''G1''" and x = ex_env and now = 1000
      and old = "\<lparr>ps_status = PPlaying, ps_reason = ''requested''\<rparr>"
      and new = "\<lparr>ps_status = PIdle, ps_reason = ''finished''\<rparr>"]
  by (simp add: ex_defs vc_defs vc_upd Let_def stopTrack_def)

text \<open>
  C20. A rejected \<open>getTrackStream\<close> inside \<open>getResource\<close> is swallowed by the
  \<open>new Promise(async ...)\<close> executor: \<open>play\<close> never settles.
\<close>

theorem play_stream_rejection_hangs:
  assumes "cfg_filters (cfg w) = []"
  shows "snd (drive x (play w enc dec False) [AUrl (UrlOk ui), ARejected e]) = Hang"
  using assms by (simp add: vc_defs vc_upd Let_def split: option.splits)

theorem play_stream_rejection_hangs_witness:
  "snd (drive ex_env (play (ex_world ''G1'') ''enc-B'' (ex_info ''B'') False)
          [AUrl (UrlOk (ex_url ''B'')), ARejected (Rejected ''ECONNRESET'')]) = Hang"
  using play_stream_rejection_hangs[where w = "ex_world ''G1''" and x = ex_env and enc = "''enc-B''"
      and dec = "ex_info ''B''" and ui = "ex_url ''B''" and e = "Rejected ''ECONNRESET''"]
  by (simp add: ex_defs vc_defs vc_upd)

text \<open>
  C21. When the UDP key is not yet known, \<open>play\<close> installs the track and waits for
  the transport; if that wait rejects (a timeout), \<open>play\<close> throws with the new track
  installed, nothing played and no failure event sent.
\<close>

theorem play_connect_timeout_silent:
  assumes "connection (me w) = Some c" "\<not> c_secretKey c" "cfg_filters (cfg w) = []"
  shows "case drive x (play w enc dec False) [AUrl (UrlOk ui), AStream (StreamOk st), ARejected e] of (w', oc) \<Rightarrow>
     outbox (gl w') = outbox (gl w) @ replacedEvents (gid w) (cfg_track (cfg w)) \<and>
     cfg_track (cfg w') = Some \<lparr>encoded = enc, info = dec\<rparr> \<and>
     issued (me w') = issued (me w) @
        (let cv = cache_volume (vcache (me w))
         in if cv \<noteq> 100 then [SetVolume (createAudioResource x st (format ui)) cv] else []) \<and>
     oc = Done (Inl e)"
  using assms by (auto simp add: vc_defs vc_upd Let_def replacedEvents_def split: option.splits)

theorem play_connect_timeout_silent_witness:
  "case drive ex_env (play (setup_vc ex_env \<lparr>gl = initial_glob, me = new_vc ''G1''\<rparr> (ex_conn\<lparr>c_secretKey := False\<rparr>))
            ''enc-B'' (ex_info ''B'') False)
          [AUrl (UrlOk (ex_url ''B'')), AStream (StreamOk 7), ARejected (Rejected ''timeout'')] of (w', oc) \<Rightarrow>
     outbox (gl w') = [] \<and> cfg_track (cfg w') = Some (ex_track ''B'') \<and>
     issued (me w') = [Join ''G1'' ''bot''] \<and> oc = Done (Inl (Rejected ''timeout''))"
  using play_connect_timeout_silent[where w = "setup_vc ex_env \<lparr>gl = initial_glob, me = new_vc ''G1''\<rparr> (ex_conn\<lparr>c_secretKey := False\<rparr>)"
      and c = "ex_conn\<lparr>c_secretKey := False\<rparr>" and x = ex_env and enc = "''enc-B''"
      and dec = "ex_info ''B''" and ui = "ex_url ''B''" and st = 7 and e = "Rejected ''timeout''"]
  by (simp add: ex_defs vc_defs vc_upd replacedEvents_def)

text \<open>
  C22. \<open>updateVoice\<close> stores the credentials, forwards a voice-state and a voice-server
  update, and asks the session to connect exactly when it has no websocket yet.
\<close>

theorem updateVoice_connects:
  assumes "connection (me w) = Some c"
  shows "case updateVoice x w b of (w', r) \<Rightarrow>
     cfg_voice (cfg w') = b \<and>
     issued (me w') = issued (me w) @ [VoiceStateUpdate (gid w) (userId x) (sessionId b),
        VoiceServerUpdate (userId x) (token b) (gid w) (endpoint b)] @ (if c_ws c then [] else [Connect]) \<and>
     r = Inr ()"
  using assms by (simp add: vc_defs vc_upd Let_def)

theorem updateVoice_connects_witness:
  "case updateVoice ex_env (ex_world ''G1'') ex_creds of (w', r) \<Rightarrow>
     issued (me w') = [Join ''G1'' ''bot'', VoiceStateUpdate ''G1'' ''bot'' (Some ''sess''),
        VoiceServerUpdate ''bot'' (Some ''tok'') ''G1'' (Some ''eu.voice''), Connect]"
  using updateVoice_connects[where w = "ex_world ''G1''" and c = ex_conn and x = ex_env and b = ex_creds]
  by (simp add: ex_defs vc_defs vc_upd)

text \<open>
  C23. The telemetry callback sends one \<open>playerUpdate\<close> whose position is
  \<open>20 * packetsExpected\<close> while the player is playing or paused and 0 otherwise.
\<close>

theorem tick_reports_realtime:
  assumes "connection (me w) = Some c"
  shows "onTick w now = (send (PlayerUpdate (gid w) now
      (if c_playerState c = PPlaying \<or> c_playerState c = PPaused then c_packetsExpected c * 20 else 0)
      (c_status c = CConnected) (c_ping c)) w, Inr ())"
  using assms by (simp add: onTick_def getRealTime_def)

theorem tick_reports_realtime_witness:
  "outbox (gl (fst (onTick (ex_playing ''G1'' ''A'') 1000))) = [PlayerUpdate ''G1'' 1000 5000 True 30]"
  using tick_reports_realtime[where w = "ex_playing ''G1'' ''A''" and c = ex_conn_playing and now = 1000]
  by (simp add: ex_defs vc_defs vc_upd)

end
