(* ===== verification/Voice_System.thy ===== *)
theory Voice_System
  imports Voice_Connection
begin

text \<open>
  The process as a whole: one VoiceConnection object per guild that has ever been
  created, the process-wide state they share (counters, \<open>client.players\<close>, the
  control-channel socket, the interval timers), and the continuations of
  \<open>play\<close>/\<open>filters\<close> calls that are waiting on an \<open>await\<close>.  One event of the
  single-threaded JavaScript scheduler is one step: a command from the control
  channel (routed to a registered guild, as the router does with
  \<open>client.players.get\<close>), a listener call from a voice session, a timer firing, a
  pending await settling, or the transport changing the fields the handler reads.
  A pending continuation may settle after any number of other events, so the
  interleavings the code allows are exactly the sequences of steps.
  Exceptions thrown by handlers are recorded in \<open>faults\<close> (Node reports them as
  uncaught exceptions or unhandled rejections).
\<close>

section \<open>State and events\<close>

record sys =
  sg :: glob
  guilds :: "guild_id \<Rightarrow> vc option"
  tasks :: "(guild_id \<times> pending) list"
  faults :: "(guild_id \<times> js_error) list"

datatype ev =
    Create guild_id conn
  | CmdPlay guild_id string track_info bool
  | CmdStop guild_id
  | CmdVolume guild_id int
  | CmdPause guild_id bool
  | CmdFilters guild_id filters
  | CmdVoice guild_id voice_creds
  | CmdDestroy guild_id
  | ConnStateChange guild_id conn_state conn_state
  | PlayerStateChange guild_id int player_state player_state
  | ConnError guild_id string string
  | TimerFires nat int
  | Settle nat answer
  | TransportUpdate guild_id conn

definition initial_sys :: sys where
  "initial_sys = \<lparr>sg = initial_glob, guilds = Map.empty, tasks = [], faults = []\<rparr>"

section \<open>Routing an event to one VoiceConnection\<close>

definition at :: "sys \<Rightarrow> vc \<Rightarrow> world" where
  "at s v = \<lparr>gl = sg s, me = v\<rparr>"

definition put :: "guild_id \<Rightarrow> world \<Rightarrow> sys \<Rightarrow> sys" where
  "put g w s = s\<lparr>sg := gl w, guilds := (guilds s)(g \<mapsto> me w)\<rparr>"

definition fault :: "guild_id \<Rightarrow> 'a js_result \<Rightarrow> sys \<Rightarrow> sys" where
  "fault g r s = (case r of Inl e \<Rightarrow> s\<lparr>faults := faults s @ [(g, e)]\<rparr> | Inr _ \<Rightarrow> s)"

text \<open>After an asynchronous method ran up to its next \<open>await\<close>: keep the continuation.\<close>

definition spawn :: "guild_id \<Rightarrow> outcome \<Rightarrow> sys \<Rightarrow> sys" where
  "spawn g oc s =
     (case oc of
        Await p \<Rightarrow> s\<lparr>tasks := tasks s @ [(g, p)]\<rparr>
      | Done r \<Rightarrow> fault g r s
      | Hang \<Rightarrow> s)"

text \<open>A listener or timer callback of the object of guild \<open>g\<close>.\<close>

definition on_guild :: "guild_id \<Rightarrow> (world \<Rightarrow> world \<times> 'a js_result) \<Rightarrow> sys \<Rightarrow> sys" where
  "on_guild g f s =
     (case guilds s g of
        None \<Rightarrow> s
      | Some v \<Rightarrow> (case f (at s v) of (w, r) \<Rightarrow> fault g r (put g w s)))"

text \<open>A command of the control channel: only for a guild in \<open>client.players\<close>.\<close>

definition command :: "guild_id \<Rightarrow> (world \<Rightarrow> world \<times> 'a js_result) \<Rightarrow> sys \<Rightarrow> sys" where
  "command g f s = (if g \<in> players (sg s) then on_guild g f s else s)"

definition command_async :: "guild_id \<Rightarrow> (world \<Rightarrow> world \<times> outcome) \<Rightarrow> sys \<Rightarrow> sys" where
  "command_async g f s =
     (if g \<in> players (sg s) then
        (case guilds s g of
           None \<Rightarrow> s
         | Some v \<Rightarrow> (case f (at s v) of (w, oc) \<Rightarrow> spawn g oc (put g w s)))
      else s)"

text \<open>
  Creating a guild's player, as the router does on the first voice update of a
  guild: \<open>new VoiceConnection(guildId, client)\<close>, registration in
  \<open>client.players\<close> and \<open>setup()\<close>; at most one object per guild.
\<close>

definition create :: "environ \<Rightarrow> guild_id \<Rightarrow> conn \<Rightarrow> sys \<Rightarrow> sys" where
  "create x g c0 s =
     (if guilds s g \<noteq> None then s
      else put g (setup_vc x \<lparr>gl = (sg s)\<lparr>players := insert g (players (sg s))\<rparr>, me = new_vc g\<rparr> c0) s)"

text \<open>The \<open>n\<close>-th waiting continuation resumes on the settled value \<open>a\<close>.\<close>

definition settle :: "environ \<Rightarrow> nat \<Rightarrow> answer \<Rightarrow> sys \<Rightarrow> sys" where
  "settle x n a s =
     (if n < length (tasks s) then
        (case tasks s ! n of
           (g, p) \<Rightarrow>
             (let s1 = s\<lparr>tasks := take n (tasks s) @ drop (Suc n) (tasks s)\<rparr>
              in case guilds s1 g of
                   None \<Rightarrow> s1
                 | Some v \<Rightarrow> (case resume x (at s1 v) p a of (w, oc) \<Rightarrow> spawn g oc (put g w s1))))
      else s)"

text \<open>The interval timer \<open>i\<close> fires, if it is still live.\<close>

definition timer_fires :: "nat \<Rightarrow> int \<Rightarrow> sys \<Rightarrow> sys" where
  "timer_fires i now s =
     (case map_of (timers (sg s)) i of
        None \<Rightarrow> s
      | Some g \<Rightarrow> on_guild g (\<lambda>w. onTick w now) s)"

text \<open>The transport changes the fields of its session object that the handler reads.\<close>

definition transport_update :: "guild_id \<Rightarrow> conn \<Rightarrow> sys \<Rightarrow> sys" where
  "transport_update g c s =
     (case guilds s g of
        Some v \<Rightarrow> (if connection v \<noteq> None then s\<lparr>guilds := (guilds s)(g \<mapsto> v\<lparr>connection := Some c\<rparr>)\<rparr> else s)
      | None \<Rightarrow> s)"

section \<open>Steps and runs\<close>

fun sys_step :: "environ \<Rightarrow> sys \<Rightarrow> ev \<Rightarrow> sys" where
  "sys_step x s (Create g c0) = create x g c0 s"
| "sys_step x s (CmdPlay g enc dec nr) = command_async g (\<lambda>w. play w enc dec nr) s"
| "sys_step x s (CmdStop g) = command g stop s"
| "sys_step x s (CmdVolume g v) = command g (\<lambda>w. volume w v) s"
| "sys_step x s (CmdPause g p) = command g (\<lambda>w. pause w p) s"
| "sys_step x s (CmdFilters g f) = command_async g (\<lambda>w. filters x w f) s"
| "sys_step x s (CmdVoice g b) = command g (\<lambda>w. updateVoice x w b) s"
| "sys_step x s (CmdDestroy g) = command g (\<lambda>w. (destroy w, Inr ())) s"
| "sys_step x s (ConnStateChange g old new) = on_guild g (\<lambda>w. onStateChange x w old new) s"
| "sys_step x s (PlayerStateChange g now old new) = on_guild g (\<lambda>w. onPlayerStateChange x w now old new) s"
| "sys_step x s (ConnError g en em) = on_guild g (\<lambda>w. (onError w en em, Inr ())) s"
| "sys_step x s (TimerFires i now) = timer_fires i now s"
| "sys_step x s (Settle n a) = settle x n a s"
| "sys_step x s (TransportUpdate g c) = transport_update g c s"

fun run :: "environ \<Rightarrow> sys \<Rightarrow> ev list \<Rightarrow> sys" where
  "run x s [] = s"
| "run x s (e # es) = run x (sys_step x s e) es"

inductive reachable :: "environ \<Rightarrow> sys \<Rightarrow> bool" for x where
  init: "reachable x initial_sys"
| step: "reachable x s \<Longrightarrow> reachable x (sys_step x s e)"


section \<open>The system invariant\<close>

text \<open>The timer table: ids are distinct and below the next id to be handed out.\<close>

definition wf_timers :: "glob \<Rightarrow> bool" where
  "wf_timers g \<longleftrightarrow> distinct (map fst (timers g)) \<and> (\<forall>t\<in>set (timers g). fst t < nextTimer g)"

text \<open>
  What every handler of one VoiceConnection leaves alone or changes in a bounded
  way: its guild id, its session object, the players counter; it may only remove
  guilds from \<open>client.players\<close>, and only add timers with fresh ids for its own guild.
\<close>

definition handler_frame :: "world \<Rightarrow> world \<Rightarrow> bool" where
  "handler_frame w w' \<longleftrightarrow>
     gid w' = gid w \<and> connection (me w') = connection (me w) \<and>
     playersCount (gl w') = playersCount (gl w) \<and> players (gl w') \<subseteq> players (gl w) \<and>
     nextTimer (gl w) \<le> nextTimer (gl w') \<and>
     (\<forall>t\<in>set (timers (gl w')). t \<in> set (timers (gl w)) \<or> (snd t = gid w \<and> nextTimer (gl w) \<le> fst t)) \<and>
     (wf_timers (gl w) \<longrightarrow> wf_timers (gl w')) \<and>
     (\<forall>i. stateInterval (me w') = Some i \<longrightarrow> stateInterval (me w) = Some i \<or> i < nextTimer (gl w'))"

text \<open>
  The invariant of every reachable process state: the players counter equals the
  number of VoiceConnection objects ever created; registered guilds have an object;
  every object carries its own guild id and a session; timers and waiting
  continuations belong to existing objects.
\<close>
definition sys_inv :: "sys \<Rightarrow> bool" where
  "sys_inv s \<longleftrightarrow>
     finite (dom (guilds s)) \<and> playersCount (sg s) = int (card (dom (guilds s))) \<and>
     players (sg s) \<subseteq> dom (guilds s) \<and> wf_timers (sg s) \<and>
     (\<forall>t\<in>set (timers (sg s)). snd t \<in> dom (guilds s)) \<and>
     (\<forall>g v. guilds s g = Some v \<longrightarrow> cfg_guildId (config v) = g \<and> connection v \<noteq> None \<and>
        (\<forall>i. stateInterval v = Some i \<longrightarrow> i < nextTimer (sg s))) \<and>
     (\<forall>t\<in>set (tasks s). fst t \<in> dom (guilds s))"


section \<open>Example traces\<close>

text \<open>Two \<open>play\<close> commands whose resolutions settle in the opposite order.\<close>

definition ex_stale_trace :: "ev list" where
  "ex_stale_trace =
     [Create ''G1'' ex_conn,
      CmdPlay ''G1'' ''enc-A'' (ex_info ''A'') False, CmdPlay ''G1'' ''enc-B'' (ex_info ''B'') False,
      Settle 1 (AUrl (UrlOk (ex_url ''B''))), Settle 1 (AStream (StreamOk 7)),
      Settle 0 (AUrl (UrlOk (ex_url ''A''))), Settle 0 (AStream (StreamOk 8))]"

text \<open>A \<open>play\<close> still resolving when the player is destroyed.\<close>

definition ex_destroy_trace :: "ev list" where
  "ex_destroy_trace =
     [Create ''G1'' ex_conn, CmdPlay ''G1'' ''enc-A'' (ex_info ''A'') False, CmdDestroy ''G1'',
      Settle 0 (AUrl (UrlOk (ex_url ''A''))), Settle 0 (AStream (StreamOk 7))]"

text \<open>
  Two genuine-start transitions without an end in between (as after a filter
  reprocessing swap that the transport reports as a requested start), then
  \<open>stop()\<close>, then the first timer fires.
\<close>

definition ex_leak_trace :: "ev list" where
  "ex_leak_trace =
     [Create ''G1'' ex_conn, CmdPlay ''G1'' ''enc-A'' (ex_info ''A'') False,
      Settle 0 (AUrl (UrlOk (ex_url ''A''))), Settle 0 (AStream (StreamOk 7)),
      PlayerStateChange ''G1'' 1000 \<lparr>ps_status = PIdle, ps_reason = []\<rparr> \<lparr>ps_status = PPlaying, ps_reason = ''requested''\<rparr>,
      PlayerStateChange ''G1'' 2000 \<lparr>ps_status = PPlaying, ps_reason = ''requested''\<rparr> \<lparr>ps_status = PPlaying, ps_reason = ''requested''\<rparr>,
      CmdStop ''G1'', TimerFires 0 5000]"

text \<open>A player created and destroyed.\<close>

definition ex_created_destroyed :: "ev list" where
  "ex_created_destroyed = [Create ''G1'' ex_conn, CmdDestroy ''G1'']"

lemmas sys_eval = create_def command_def command_async_def on_guild_def at_def put_def spawn_def
  fault_def settle_def timer_fires_def transport_update_def initial_sys_def
  ex_stale_trace_def ex_destroy_trace_def ex_leak_trace_def ex_created_destroyed_def

section \<open>Frame lemmas\<close>

named_theorems frame_intros

lemma frame_refl [frame_intros]: "handler_frame w w"
  by (simp add: handler_frame_def)

lemma frame_send [frame_intros]: "handler_frame w w' \<Longrightarrow> handler_frame w (send m w')"
  by (simp add: handler_frame_def send_def wf_timers_def)

lemma frame_issue [frame_intros]: "handler_frame w w' \<Longrightarrow> handler_frame w (issue c w')"
  by (simp add: handler_frame_def issue_def wf_timers_def)

lemma frame_upd_cache [frame_intros]: "handler_frame w w' \<Longrightarrow> handler_frame w (upd_cache f w')"
  by (simp add: handler_frame_def upd_cache_def wf_timers_def)

lemma frame_upd_config [frame_intros]:
  "handler_frame w w' \<Longrightarrow> cfg_guildId (f (cfg w')) = cfg_guildId (cfg w') \<Longrightarrow> handler_frame w (upd_config f w')"
  by (simp add: handler_frame_def upd_config_def wf_timers_def)

lemma frame_stopTrack [frame_intros]: "handler_frame w w' \<Longrightarrow> handler_frame w (stopTrack w')"
  by (auto simp add: handler_frame_def wf_timers_def distinct_map_filter split: option.splits)

lemma frame_startInterval [frame_intros]: "handler_frame w w' \<Longrightarrow> handler_frame w (startInterval w')"
  by (auto simp add: handler_frame_def startInterval_def wf_timers_def Let_def)

lemma frame_players:
  "handler_frame w w' \<Longrightarrow> P \<subseteq> players (gl w') \<Longrightarrow> handler_frame w (w'\<lparr>gl := (gl w')\<lparr>players := P\<rparr>\<rparr>)"
  by (auto simp add: handler_frame_def wf_timers_def)

lemma frame_playing [frame_intros]:
  "handler_frame w w' \<Longrightarrow> handler_frame w (w'\<lparr>gl := (gl w')\<lparr>playingCount := n\<rparr>\<rparr>)"
  by (simp add: handler_frame_def wf_timers_def)


lemmas frame_unfold = stop_def volume_def pause_def updateVoice_def destroy_def onStateChange_def
  onPlayerStateChange_def onTick_def play_def filters_def afterUrl_def afterResource_def
  finishPlay_def filtersAfterRes_def Let_def

lemma frame_resume: "handler_frame w (fst (resume x w p a))"
  by (cases "(x, w, p, a)" rule: resume.cases)
     (simp_all add: afterUrl_def afterResource_def finishPlay_def filtersAfterRes_def Let_def frame_intros
        split: option.split url_result.split resource.split)

lemma frame_stop: "handler_frame w (fst (stop w))"
  by (simp add: stop_def Let_def frame_intros split: option.split)

lemma frame_volume: "handler_frame w (fst (volume w v))"
  by (simp add: volume_def Let_def frame_intros split: option.split)

lemma frame_pause: "handler_frame w (fst (pause w b))"
  by (simp add: pause_def Let_def frame_intros split: option.split)

lemma frame_updateVoice: "handler_frame w (fst (updateVoice x w cr))"
  by (simp add: updateVoice_def Let_def frame_intros split: option.split)

lemma frame_onStateChange: "handler_frame w (fst (onStateChange x w os ns))"
  by (simp add: onStateChange_def initial_config_def Let_def frame_intros split: option.split)

lemma frame_onPlayerStateChange: "handler_frame w (fst (onPlayerStateChange x w now op np))"
  by (simp add: onPlayerStateChange_def Let_def frame_intros split: option.split)

lemma frame_onError: "handler_frame w (onError w en em)"
  by (simp add: onError_def Let_def frame_intros split: option.split)

lemma frame_onTick: "handler_frame w (fst (onTick w now))"
  by (simp add: onTick_def Let_def frame_intros split: option.split)

lemma frame_play: "handler_frame w (fst (play w enc dec nr))"
  by (simp add: play_def Let_def frame_intros split: option.split)

lemma frame_filters: "handler_frame w (fst (filters x w f))"
  by (simp add: filters_def Let_def frame_intros split: option.split)

lemma frame_destroy: "handler_frame w (destroy w)"
  unfolding destroy_def Let_def
  by (rule frame_players) (auto simp: frame_intros)

section \<open>Preservation of the invariant\<close>

lemma sys_inv_init: "sys_inv initial_sys"
  by (simp add: sys_inv_def initial_sys_def initial_glob_def wf_timers_def)

lemma sys_inv_put:
  assumes inv: "sys_inv s" and gv: "guilds s g = Some v" and fr: "handler_frame (at s v) w"
  shows "sys_inv (put g w s)"
proof -
  have gd: "g \<in> dom (guilds s)" using gv by blast
  have d: "dom ((guilds s)(g \<mapsto> me w)) = dom (guilds s)" using gd by auto
  have gid: "gid w = g" using inv gv fr by (simp add: sys_inv_def handler_frame_def at_def)
  have nt: "nextTimer (sg s) \<le> nextTimer (gl w)" using fr by (simp add: handler_frame_def at_def)
  have tm: "\<forall>t\<in>set (timers (gl w)). snd t \<in> dom (guilds s)"
  proof
    fix t assume "t \<in> set (timers (gl w))"
    with fr have "t \<in> set (timers (sg s)) \<or> snd t = g"
      using gid by (auto simp: handler_frame_def at_def)
    with inv gd show "snd t \<in> dom (guilds s)" by (auto simp: sys_inv_def)
  qed
  have me: "cfg_guildId (config (me w)) = g \<and> connection (me w) \<noteq> None \<and>
      (\<forall>i. stateInterval (me w) = Some i \<longrightarrow> i < nextTimer (gl w))"
  proof -
    have "\<forall>i. stateInterval v = Some i \<longrightarrow> i < nextTimer (sg s)" and "connection v \<noteq> None"
      using inv gv by (simp_all add: sys_inv_def)
    with fr gid nt show ?thesis by (auto simp: handler_frame_def at_def)
  qed
  have oth: "\<forall>h u. guilds s h = Some u \<longrightarrow> (\<forall>i. stateInterval u = Some i \<longrightarrow> i < nextTimer (gl w))"
    using inv nt unfolding sys_inv_def by (blast intro: less_le_trans)
  have rest: "finite (dom (guilds s)) \<and> players (gl w) \<subseteq> dom (guilds s) \<and> wf_timers (gl w) \<and>
      playersCount (gl w) = int (card (dom (guilds s))) \<and> (\<forall>t\<in>set (tasks s). fst t \<in> dom (guilds s))"
    using inv fr by (auto simp: sys_inv_def handler_frame_def at_def)
  show ?thesis
    unfolding sys_inv_def put_def using d tm me oth rest inv by (auto simp: sys_inv_def)
qed

lemma fault_sel [simp]:
  "guilds (fault g r s) = guilds s" "sg (fault g r s) = sg s" "tasks (fault g r s) = tasks s"
  by (simp_all add: fault_def split: sum.split)

lemma sys_inv_fault [simp]: "sys_inv (fault g r s) = sys_inv s"
  by (simp add: sys_inv_def)

lemma sys_inv_spawn: "sys_inv s \<Longrightarrow> g \<in> dom (guilds s) \<Longrightarrow> sys_inv (spawn g oc s)"
  by (auto simp: spawn_def sys_inv_def split: outcome.split)

lemma guilds_put [simp]: "guilds (put g w s) = (guilds s)(g \<mapsto> me w)"
  by (simp add: put_def)

lemma sys_inv_on_guild:
  assumes "sys_inv s" "\<And>w. handler_frame w (fst (f w))"
  shows "sys_inv (on_guild g f s)"
proof (cases "guilds s g")
  case None with assms(1) show ?thesis by (simp add: on_guild_def)
next
  case (Some v)
  obtain w r where "f (at s v) = (w, r)" by fastforce
  with assms(2)[of "at s v"] have "handler_frame (at s v) w" by simp
  with sys_inv_put[OF assms(1) Some] Some \<open>f (at s v) = (w, r)\<close> show ?thesis
    by (simp add: on_guild_def)
qed

lemma sys_inv_command:
  assumes "sys_inv s" "\<And>w. handler_frame w (fst (f w))"
  shows "sys_inv (command g f s)"
  using assms(1) sys_inv_on_guild[OF assms] by (simp add: command_def)

lemma sys_inv_command_async:
  assumes "sys_inv s" "\<And>w. handler_frame w (fst (f w))"
  shows "sys_inv (command_async g f s)"
proof (cases "g \<in> players (sg s) \<and> guilds s g \<noteq> None")
  case True
  then obtain v where v: "guilds s g = Some v" by auto
  obtain w oc where wo: "f (at s v) = (w, oc)" by fastforce
  with assms(2)[of "at s v"] have "handler_frame (at s v) w" by simp
  then have "sys_inv (put g w s)" by (rule sys_inv_put[OF assms(1) v])
  then have "sys_inv (spawn g oc (put g w s))" by (rule sys_inv_spawn) simp
  with True v wo show ?thesis by (simp add: command_async_def)
next
  case False
  with assms(1) show ?thesis by (auto simp: command_async_def)
qed

lemma sys_inv_create: "sys_inv s \<Longrightarrow> sys_inv (create x g c0 s)"
  by (auto simp: create_def sys_inv_def put_def setup_vc_def issue_def new_vc_def initial_config_def
      Let_def wf_timers_def domIff)

lemma sys_inv_timer: "sys_inv s \<Longrightarrow> sys_inv (timer_fires i now s)"
  by (simp add: timer_fires_def sys_inv_on_guild frame_onTick split: option.split)

lemma sys_inv_transport: "sys_inv s \<Longrightarrow> sys_inv (transport_update g c s)"
  by (auto simp: transport_update_def sys_inv_def insert_dom split: option.split)

lemma sys_inv_drop_task:
  "sys_inv s \<Longrightarrow> sys_inv (s\<lparr>tasks := take n (tasks s) @ drop (Suc n) (tasks s)\<rparr>)"
  using set_take_subset[of n "tasks s"] set_drop_subset[of "Suc n" "tasks s"]
  by (auto simp: sys_inv_def)

lemma sys_inv_settle:
  assumes inv: "sys_inv s"
  shows "sys_inv (settle x n a s)"
proof (cases "n < length (tasks s)")
  case True
  obtain g p where gp: "tasks s ! n = (g, p)" by fastforce
  define s1 where "s1 = s\<lparr>tasks := take n (tasks s) @ drop (Suc n) (tasks s)\<rparr>"
  have i1: "sys_inv s1" unfolding s1_def by (rule sys_inv_drop_task[OF inv])
  show ?thesis
  proof (cases "guilds s1 g")
    case None
    with True gp i1 show ?thesis by (simp add: settle_def s1_def)
  next
    case (Some v)
    obtain w oc where wo: "resume x (at s1 v) p a = (w, oc)" by fastforce
    have "handler_frame (at s1 v) w" using frame_resume[of "at s1 v" x p a] wo by simp
    then have "sys_inv (put g w s1)" by (rule sys_inv_put[OF i1 Some])
    then have "sys_inv (spawn g oc (put g w s1))" by (rule sys_inv_spawn) simp
    with True gp Some wo show ?thesis by (simp add: settle_def s1_def Let_def)
  qed
next
  case False
  with inv show ?thesis by (simp add: settle_def)
qed

lemmas frame_handler_lemmas = frame_stop frame_volume frame_pause frame_updateVoice frame_destroy
  frame_onStateChange frame_onPlayerStateChange frame_onError frame_onTick frame_play frame_filters

lemma sys_inv_step: "sys_inv s \<Longrightarrow> sys_inv (sys_step x s e)"
  by (cases e)
     (simp_all add: sys_inv_create sys_inv_command sys_inv_command_async sys_inv_on_guild
        sys_inv_settle sys_inv_timer sys_inv_transport frame_handler_lemmas)

theorem reachable_sys_inv: "reachable x s \<Longrightarrow> sys_inv s"
  by (induction rule: reachable.induct) (simp_all add: sys_inv_init sys_inv_step)

lemma reachable_run: "reachable x s \<Longrightarrow> reachable x (run x s es)"
  by (induction es arbitrary: s) (auto intro: reachable.step)


section \<open>Properties of the whole process\<close>



text \<open>
  C25. In every reachable state each VoiceConnection object carries its own guild
  id and has a voice session, so no handler reaches the null-connection branches.
\<close>

theorem reachable_objects_consistent:
  assumes "reachable x s" "guilds s g = Some v"
  shows "cfg_guildId (config v) = g \<and> connection v \<noteq> None"
  using reachable_sys_inv[OF assms(1)] assms(2) by (simp add: sys_inv_def)

theorem reachable_objects_consistent_witness:
  "cfg_guildId (config (the (guilds (run ex_env initial_sys ex_created_destroyed) ''G1''))) = ''G1'' \<and>
   connection (the (guilds (run ex_env initial_sys ex_created_destroyed) ''G1'')) \<noteq> None"
  using reachable_objects_consistent[OF reachable_run[OF reachable.init, of ex_env ex_created_destroyed],
      of "''G1''" "the (guilds (run ex_env initial_sys ex_created_destroyed) ''G1'')"]
  by (simp add: sys_eval ex_defs vc_defs vc_upd Let_def stopTrack_def)






end
