(* ===== verification/Spotify_Fanout.thy ===== *)
theory Spotify_Fanout
  imports Interfaces
begin

text \<open>
  The asynchronous fan-out that spotify.js writes three times, in \<open>search\<close> (lines
  115-177) and in the playlist, album and show branches of \<open>loadFrom\<close> (playlist and album share one; lines
  320-400 and 401-476): \<open>items.forEach(async (item) => ...)\<close> starts one callback per
  result item.  A callback for a falsy item runs to its end at once; any other
  builds a query and awaits \<open>searchWithDefault\<close>, then pushes the track it found.
  Every callback that reaches its end compares the shared counter \<open>index\<close> with
  \<open>length - 1\<close>: the one that sees it equal rejoins, rebuilding the list of tracks in
  the items' order (the nested \<open>forEach\<close> that writes \<open>track2.info.position\<close>), and
  resolves the promise.

  The three copies differ only in three places, which are the parameters here: which
  items can build their query (\<open>q\<close>; reading \<open>artists[0].name\<close> of an item with no
  artist throws), how the track is built from the item and the first search hit
  (\<open>mk\<close>, \<open>None\<close> when building throws), and the test of the rejoin (\<open>key\<close>).
  The answers of \<open>searchWithDefault\<close> are inputs (\<open>r i\<close> for the \<open>i\<close>-th item:
  \<open>Some t\<close> when it answers \<open>loadType 'search'\<close> with first hit \<open>t\<close>), and so is the
  order in which the awaits return.
\<close>

section \<open>Results\<close>

text \<open>
  The objects \<open>search\<close> and \<open>loadFrom\<close> resolve with, by \<open>loadType\<close>: \<open>'empty'\<close>,
  \<open>'error'\<close> with its message, \<open>'track'\<close>, \<open>'search'\<close>, and a list
  (\<open>'playlist'\<close>, \<open>'album'\<close> or \<open>'show'\<close>, with the list's name).
\<close>

datatype load_result =
    LEmpty
  | LError string
  | LTrack track_info
  | LSearch "track_info list"
  | LList string string "track_info list"

text \<open>
  A promise built as \<open>new Promise(async (resolve) => ...)\<close>: it resolves with a value,
  or it stays pending forever; the exceptions thrown on the way (by the executor or
  by callbacks it started) are kept, each the rejection of a promise nobody awaits.
\<close>

datatype 'a settlement = Resolves 'a | NeverSettles "js_error list"

section \<open>The shared state of the callbacks\<close>

text \<open>
  \<open>index\<close> and \<open>tracks\<close> of the closure, the lists \<open>tracks\<close> held at each rejoin (each
  time a callback passes the test \<open>index == length - 1\<close>), and the exceptions thrown
  by callbacks (each one an unhandled rejection of that callback's promise).
\<close>

record fan =
  f_index :: nat
  f_tracks :: "track_info list"
  f_fired :: "track_info list list"
  f_errors :: "js_error list"

definition fan0 :: fan where
  "fan0 = \<lparr>f_index = 0, f_tracks = [], f_fired = [], f_errors = []\<rparr>"

text \<open>
  The end of every callback (e.g. lines 150-177): rejoin when \<open>index == length - 1\<close>,
  returning early without \<open>index++\<close> when no track was found, then \<open>index++\<close>.
\<close>

definition callback_tail :: "nat \<Rightarrow> fan \<Rightarrow> fan" where
  "callback_tail n f =
     (if f_index f = n - 1 then
        (let f1 = f\<lparr>f_fired := f_fired f @ [f_tracks f]\<rparr>
         in if f_tracks f = [] then f1 else f1\<lparr>f_index := Suc (f_index f1)\<rparr>)
      else f\<lparr>f_index := Suc (f_index f)\<rparr>)"

section \<open>The synchronous pass and the completions\<close>

text \<open>
  The synchronous pass of \<open>forEach\<close>: a falsy item runs its whole callback at once;
  an item whose query can be built starts its search and waits (its position is
  recorded); building the query of any other item throws, so its callback never
  reaches the counter.
\<close>

fun sync_pass ::
  "('a \<Rightarrow> bool) \<Rightarrow> nat \<Rightarrow> 'a option list \<Rightarrow> nat \<Rightarrow> fan \<Rightarrow> nat list \<Rightarrow> fan \<times> nat list" where
  "sync_pass q n [] k f ws = (f, ws)"
| "sync_pass q n (None # xs) k f ws = sync_pass q n xs (Suc k) (callback_tail n f) ws"
| "sync_pass q n (Some x # xs) k f ws =
     (if q x then sync_pass q n xs (Suc k) f (ws @ [k])
      else sync_pass q n xs (Suc k) (f\<lparr>f_errors := f_errors f @ [TypeError ''query'']\<rparr>) ws)"

text \<open>
  What a resumed callback pushes: the track built from the item and the first hit
  when the search answered \<open>'search'\<close>, nothing otherwise; \<open>None\<close> when building the
  track throws.
\<close>

fun pushed ::
  "('a \<Rightarrow> track_info \<Rightarrow> track_info option) \<Rightarrow> 'a option \<Rightarrow> track_info option \<Rightarrow> track_info list option" where
  "pushed mk (Some x) (Some t) = (case mk x t of None \<Rightarrow> None | Some tr \<Rightarrow> Some [tr])"
| "pushed mk _ _ = Some []"

text \<open>The waiting callbacks resume in the order their searches return, \<open>order\<close>.\<close>

fun complete ::
  "('a \<Rightarrow> track_info \<Rightarrow> track_info option) \<Rightarrow> nat \<Rightarrow> 'a option list \<Rightarrow> (nat \<Rightarrow> track_info option) \<Rightarrow>
   fan \<Rightarrow> nat list \<Rightarrow> fan" where
  "complete mk n items r f [] = f"
| "complete mk n items r f (i # is) =
     (case pushed mk (items ! i) (r i) of
        None \<Rightarrow> complete mk n items r (f\<lparr>f_errors := f_errors f @ [TypeError ''build'']\<rparr>) is
      | Some ts \<Rightarrow> complete mk n items r (callback_tail n (f\<lparr>f_tracks := f_tracks f @ ts\<rparr>)) is)"

definition fanout ::
  "('a \<Rightarrow> bool) \<Rightarrow> ('a \<Rightarrow> track_info \<Rightarrow> track_info option) \<Rightarrow> 'a option list \<Rightarrow>
   (nat \<Rightarrow> track_info option) \<Rightarrow> nat list \<Rightarrow> fan" where
  "fanout q mk items r order =
     complete mk (length items) items r (fst (sync_pass q (length items) items 0 fan0 [])) order"

definition waiting :: "('a \<Rightarrow> bool) \<Rightarrow> 'a option list \<Rightarrow> nat list" where
  "waiting q items = snd (sync_pass q (length items) items 0 fan0 [])"

text \<open>Items whose callback awaits a search.\<close>

fun waits :: "('a \<Rightarrow> bool) \<Rightarrow> 'a option \<Rightarrow> bool" where
  "waits q None = False"
| "waits q (Some x) = q x"

section \<open>The rejoin\<close>

text \<open>
  The nested \<open>forEach\<close> of the rejoin.  \<open>new_tracks\<close> holds references to the objects
  of \<open>tracks\<close>, so the loop works on the array of those objects and the list of
  indices pushed: \<open>track2.info.position = index2\<close> writes into the shared object and
  every reference sees the last write.  \<open>scan\<close> is the inner loop over \<open>tracks\<close>;
  reading a field of a null item throws (the outer loop).
\<close>

fun scan ::
  "('a \<Rightarrow> track_info \<Rightarrow> bool js_result) \<Rightarrow> 'a \<Rightarrow> nat \<Rightarrow> nat list \<Rightarrow> track_info list \<Rightarrow> nat list \<Rightarrow>
   (track_info list \<times> nat list) js_result" where
  "scan key x i [] ts refs = Inr (ts, refs)"
| "scan key x i (j # js) ts refs =
     (case key x (ts ! j) of
        Inl e \<Rightarrow> Inl e
      | Inr b \<Rightarrow>
          (if b then scan key x i js (ts[j := (ts ! j)\<lparr>position := i\<rparr>]) (refs @ [j])
           else scan key x i js ts refs))"

fun reorder_loop ::
  "('a \<Rightarrow> track_info \<Rightarrow> bool js_result) \<Rightarrow> 'a option list \<Rightarrow> nat \<Rightarrow> track_info list \<Rightarrow> nat list \<Rightarrow>
   (track_info list \<times> nat list) js_result" where
  "reorder_loop key [] i ts refs = Inr (ts, refs)"
| "reorder_loop key (None # xs) i ts refs =
     (if ts = [] then reorder_loop key xs (Suc i) ts refs else Inl (TypeError ''item''))"
| "reorder_loop key (Some x # xs) i ts refs =
     (case scan key x i [0..<length ts] ts refs of
        Inl e \<Rightarrow> Inl e
      | Inr (us, refs') \<Rightarrow> reorder_loop key xs (Suc i) us refs')"

definition reorder ::
  "('a \<Rightarrow> track_info \<Rightarrow> bool js_result) \<Rightarrow> 'a option list \<Rightarrow> track_info list \<Rightarrow> track_info list js_result" where
  "reorder key items ts =
     (case reorder_loop key items 0 ts [] of
        Inl e \<Rightarrow> Inl e
      | Inr (us, refs) \<Rightarrow> Inr (map (\<lambda>j. us ! j) refs))"

text \<open>
  What the promise of the fan-out settles to, from the first rejoin: \<open>'empty'\<close> when
  no track was found, else the reordered tracks wrapped by the caller (\<open>wrap\<close>).  With
  no rejoin, or when the rejoin throws, the promise never settles.
\<close>

definition rejoin ::
  "('a \<Rightarrow> track_info \<Rightarrow> bool js_result) \<Rightarrow> (track_info list \<Rightarrow> load_result) \<Rightarrow> 'a option list \<Rightarrow> fan \<Rightarrow>
   load_result settlement" where
  "rejoin key wrap items f =
     (case f_fired f of
        [] \<Rightarrow> NeverSettles (f_errors f)
      | ts # _ \<Rightarrow>
          (if ts = [] then Resolves LEmpty
           else (case reorder key items ts of
                   Inl e \<Rightarrow> NeverSettles [e]
                 | Inr us \<Rightarrow> Resolves (wrap us))))"

section \<open>Reference specification of the rejoin\<close>

text \<open>
  The position a track ends with: the index of the last item it matches (the last
  write to the shared object), or its old position when it matches none.
\<close>

fun last_match :: "('a \<Rightarrow> track_info \<Rightarrow> bool) \<Rightarrow> nat \<Rightarrow> 'a list \<Rightarrow> track_info \<Rightarrow> nat \<Rightarrow> nat" where
  "last_match m i [] t p = p"
| "last_match m i (x # xs) t p = last_match m (Suc i) xs t (if m x t then i else p)"

text \<open>
  For each item in order, the tracks it matches in their order, each carrying the
  position of the last item it matches.
\<close>

definition reorder_spec :: "('a \<Rightarrow> track_info \<Rightarrow> bool) \<Rightarrow> 'a list \<Rightarrow> track_info list \<Rightarrow> track_info list" where
  "reorder_spec m xs ts =
     concat (map (\<lambda>x. map (\<lambda>t. t\<lparr>position := last_match m 0 xs t (position t)\<rparr>) (filter (m x) ts)) xs)"

section \<open>Invariants of the fan-out and the rejoin\<close>

text \<open>Every track held by the callbacks satisfies \<open>P\<close>; two arrays of track objects
  agree except on \<open>position\<close>.\<close>

definition fan_ok :: "(track_info \<Rightarrow> bool) \<Rightarrow> fan \<Rightarrow> bool" where
  "fan_ok P f \<longleftrightarrow> (\<forall>u\<in>set (f_tracks f). P u) \<and> (\<forall>ts\<in>set (f_fired f). \<forall>u\<in>set ts. P u)"

definition same_but_position :: "track_info list \<Rightarrow> track_info list \<Rightarrow> bool" where
  "same_but_position us vs \<longleftrightarrow>
     length vs = length us \<and> (\<forall>j<length us. vs ! j = (us ! j)\<lparr>position := position (vs ! j)\<rparr>)"

section \<open>Lemmas: the synchronous pass and the completions\<close>

lemma callback_tail_errors [simp]: "f_errors (callback_tail n f) = f_errors f"
  by (simp add: callback_tail_def Let_def)

lemma callback_tail_bump:
  "f_index f \<noteq> n - 1 \<Longrightarrow> callback_tail n f = f\<lparr>f_index := Suc (f_index f)\<rparr>"
  by (simp add: callback_tail_def)

lemma complete_errors:
  "f_errors (complete mk n items r f is) =
   f_errors f @ map (\<lambda>_. TypeError ''build'') (filter (\<lambda>i. pushed mk (items ! i) (r i) = None) is)"
  by (induction "is" arbitrary: f) (auto split: option.split)

lemma complete_fires_last:
  "f_index f + length is = n \<Longrightarrow> is \<noteq> [] \<Longrightarrow> \<forall>i\<in>set is. pushed mk (items ! i) (r i) \<noteq> None \<Longrightarrow>
   f_fired (complete mk n items r f is) =
   f_fired f @ [f_tracks f @ concat (map (\<lambda>i. the (pushed mk (items ! i) (r i))) is)]"
proof (induction "is" arbitrary: f)
  case Nil then show ?case by simp
next
  case (Cons i "is")
  then obtain ts where ts: "pushed mk (items ! i) (r i) = Some ts" by auto
  show ?case
  proof (cases "is = []")
    case True
    with Cons.prems have "f_index f = n - 1" by simp
    with True ts show ?thesis by (simp add: callback_tail_def Let_def)
  next
    case False
    with Cons.prems have "f_index f \<noteq> n - 1" by auto
    with Cons.prems False ts show ?thesis by (simp add: callback_tail_bump Cons.IH)
  qed
qed

lemma complete_never_fires:
  "f_index f + length (filter (\<lambda>i. pushed mk (items ! i) (r i) \<noteq> None) is) < n \<Longrightarrow>
   f_fired (complete mk n items r f is) = f_fired f"
proof (induction "is" arbitrary: f)
  case Nil then show ?case by simp
next
  case (Cons i "is")
  show ?case
  proof (cases "pushed mk (items ! i) (r i)")
    case None
    with Cons show ?thesis by simp
  next
    case (Some ts)
    with Cons.prems have "f_index f \<noteq> n - 1" by auto
    with Cons Some show ?thesis by (simp add: callback_tail_bump)
  qed
qed

lemma callback_tail_tracks [simp]: "f_tracks (callback_tail n f) = f_tracks f"
  by (simp add: callback_tail_def Let_def)

lemma sync_pass_waiting:
  "snd (sync_pass q n xs k f ws) = ws @ map (\<lambda>i. i + k) (filter (\<lambda>i. waits q (xs ! i)) [0..<length xs])"
  by (induction q n xs k f ws rule: sync_pass.induct)
     (auto simp: filter_upt_Suc_shift comp_def simp del: upt_Suc)

lemma sync_pass_errors:
  "f_errors (fst (sync_pass q n xs k f ws)) =
     f_errors f @ map (\<lambda>_. TypeError ''query'') (filter (\<lambda>x. x \<noteq> None \<and> \<not> waits q x) xs) \<and>
   f_tracks (fst (sync_pass q n xs k f ws)) = f_tracks f"
  by (induction q n xs k f ws rule: sync_pass.induct) simp_all

lemma sync_pass_counter:
  assumes "f_tracks f = []" "f_index f \<le> k" "k + length xs = n"
  shows "if xs \<noteq> [] \<and> (\<forall>x\<in>set xs. x = None) \<and> f_index f = k
    then f_fired (fst (sync_pass q n xs k f ws)) = f_fired f @ [[]]
    else f_fired (fst (sync_pass q n xs k f ws)) = f_fired f \<and>
         f_index (fst (sync_pass q n xs k f ws)) = f_index f + length (filter (\<lambda>x. x = None) xs)"
  using assms
proof (induction xs arbitrary: k f ws)
  case Nil then show ?case by simp
next
  case (Cons x xs)
  show ?case
  proof (cases x)
    case None
    show ?thesis
    proof (cases "f_index f = n - 1")
      case True
      with Cons.prems None have "xs = []" "f_index f = k" by auto
      with Cons.prems None True show ?thesis by (auto simp: callback_tail_def Let_def)
    next
      case False
      with Cons.IH[of "f\<lparr>f_index := Suc (f_index f)\<rparr>" "Suc k" ws] Cons.prems None show ?thesis
        by (auto simp: callback_tail_bump)
    qed
  next
    case (Some y)
    with Cons.IH[of "if q y then f else f\<lparr>f_errors := f_errors f @ [TypeError ''query'']\<rparr>" "Suc k"] Cons.prems
    show ?thesis by (auto split: if_splits)
  qed
qed

lemma sync_pass_props:
  assumes "f_tracks f = []" "f_index f \<le> k" "k + length xs = n" "sync_pass q n xs k f ws = (f', ws')"
  shows "f_tracks f' = [] \<and> ws' = ws @ map (\<lambda>i. i + k) (filter (\<lambda>i. waits q (xs ! i)) [0..<length xs]) \<and>
    f_errors f' = f_errors f @ map (\<lambda>_. TypeError ''query'') (filter (\<lambda>x. x \<noteq> None \<and> \<not> waits q x) xs) \<and>
    (if xs \<noteq> [] \<and> (\<forall>x\<in>set xs. x = None) \<and> f_index f = k then f_fired f' = f_fired f @ [[]]
     else f_fired f' = f_fired f \<and> f_index f' = f_index f + length (filter (\<lambda>x. x = None) xs))"
proof -
  have "f' = fst (sync_pass q n xs k f ws)" "ws' = snd (sync_pass q n xs k f ws)"
    using assms(4) by simp_all
  then show ?thesis
    using sync_pass_waiting[of q n xs k f ws] sync_pass_errors[of q n xs k f ws]
      sync_pass_counter[OF assms(1-3), of q ws] assms(1)
    by (simp only:)
qed

lemma waiting_eq:
  "waiting q items = filter (\<lambda>i. waits q (items ! i)) [0..<length items]"
proof -
  obtain f1 ws where "sync_pass q (length items) items 0 fan0 [] = (f1, ws)" by fastforce
  with sync_pass_props[OF _ _ _ this] show ?thesis by (simp add: waiting_def fan0_def)
qed

lemma length_waiting: "length (waiting q items) = length (filter (waits q) items)"
  using filter_upt_nth[where P = "waits q" and xs = items] by (metis length_map waiting_eq)

lemma waits_not_None: "waits q x \<Longrightarrow> x \<noteq> None"
  by (cases x) auto

lemma sync_pass_fan0:
  assumes "sync_pass q (length items) items 0 fan0 [] = (f1, ws)"
  shows "f_tracks f1 = [] \<and>
    f_errors f1 = map (\<lambda>_. TypeError ''query'') (filter (\<lambda>x. x \<noteq> None \<and> \<not> waits q x) items) \<and>
    (if items \<noteq> [] \<and> (\<forall>x\<in>set items. x = None) then f_fired f1 = [[]]
     else f_fired f1 = [] \<and> f_index f1 = length (filter (\<lambda>x. x = None) items))"
  using sync_pass_props[OF _ _ _ assms] by (simp add: fan0_def)

lemma waiting_all:
  "\<forall>x\<in>set xs. q x \<Longrightarrow> waiting q (map Some xs) = [0..<length xs]"
  by (auto simp: waiting_eq filter_id_conv)

section \<open>Lemmas: the rejoin refines its reference specification\<close>

lemma scan_eq:
  assumes "distinct js" "\<forall>j\<in>set js. j < length us"
  shows "scan (\<lambda>x t. Inr (m x t)) x i js us refs =
    Inr (map (\<lambda>j. if j \<in> set js \<and> m x (us ! j) then (us ! j)\<lparr>position := i\<rparr> else us ! j) [0..<length us],
         refs @ filter (\<lambda>j. m x (us ! j)) js)"
  using assms
proof (induction js arbitrary: us refs)
  case Nil then show ?case by (simp add: map_nth)
next
  case (Cons j js)
  show ?case
  proof (cases "m x (us ! j)")
    case True
    let ?u = "us[j := (us ! j)\<lparr>position := i\<rparr>]"
    have "scan (\<lambda>x t. Inr (m x t)) x i js ?u (refs @ [j]) =
      Inr (map (\<lambda>j'. if j' \<in> set js \<and> m x (?u ! j') then (?u ! j')\<lparr>position := i\<rparr> else ?u ! j') [0..<length us],
           refs @ [j] @ filter (\<lambda>j'. m x (?u ! j')) js)"
      using Cons by simp
    moreover have "filter (\<lambda>j'. m x (?u ! j')) js = filter (\<lambda>j'. m x (us ! j')) js"
      using Cons.prems by (intro filter_cong refl) (metis distinct.simps(2) nth_list_update_neq)
    moreover have "map (\<lambda>j'. if j' \<in> set js \<and> m x (?u ! j') then (?u ! j')\<lparr>position := i\<rparr> else ?u ! j') [0..<length us] =
        map (\<lambda>j'. if j' \<in> set (j # js) \<and> m x (us ! j') then (us ! j')\<lparr>position := i\<rparr> else us ! j') [0..<length us]"
      using Cons.prems True by (intro map_cong) (auto simp: nth_list_update)
    ultimately show ?thesis using True by simp
  next
    case False
    have "scan (\<lambda>x t. Inr (m x t)) x i js us refs =
      Inr (map (\<lambda>j'. if j' \<in> set js \<and> m x (us ! j') then (us ! j')\<lparr>position := i\<rparr> else us ! j') [0..<length us],
           refs @ filter (\<lambda>j'. m x (us ! j')) js)"
      using Cons by simp
    moreover have "map (\<lambda>j'. if j' \<in> set js \<and> m x (us ! j') then (us ! j')\<lparr>position := i\<rparr> else us ! j') [0..<length us] =
        map (\<lambda>j'. if j' \<in> set (j # js) \<and> m x (us ! j') then (us ! j')\<lparr>position := i\<rparr> else us ! j') [0..<length us]"
      using False by (intro map_cong) auto
    ultimately show ?thesis using False by simp
  qed
qed

lemma scan_all:
  "scan (\<lambda>x t. Inr (m x t)) x i [0..<length us] us refs =
   Inr (map (\<lambda>t. if m x t then t\<lparr>position := i\<rparr> else t) us, refs @ filter (\<lambda>j. m x (us ! j)) [0..<length us])"
proof -
  have "map (\<lambda>j. if j \<in> set [0..<length us] \<and> m x (us ! j) then (us ! j)\<lparr>position := i\<rparr> else us ! j) [0..<length us] =
      map (\<lambda>t. if m x t then t\<lparr>position := i\<rparr> else t) us"
    by (rule nth_equalityI) auto
  then show ?thesis by (simp add: scan_eq)
qed

lemma last_match_position:
  assumes "\<forall>x t p. m x (t\<lparr>position := p\<rparr>) = m x t"
  shows "last_match m i xs (t\<lparr>position := p\<rparr>) q = last_match m i xs t q"
  using assms by (induction xs arbitrary: i q) auto

lemma reorder_loop_eq:
  assumes "\<forall>x t p. m x (t\<lparr>position := p\<rparr>) = m x t"
  shows "reorder_loop (\<lambda>x t. Inr (m x t)) (map Some xs) i us refs =
    Inr (map (\<lambda>t. t\<lparr>position := last_match m i xs t (position t)\<rparr>) us,
         refs @ concat (map (\<lambda>x. filter (\<lambda>j. m x (us ! j)) [0..<length us]) xs))"
proof (induction xs arbitrary: i us refs)
  case Nil then show ?case by simp
next
  case (Cons x xs)
  let ?u = "map (\<lambda>t. if m x t then t\<lparr>position := i\<rparr> else t) us"
  have f: "filter (\<lambda>j. m y (?u ! j)) [0..<length us] = filter (\<lambda>j. m y (us ! j)) [0..<length us]" for y
    using assms by (intro filter_cong) auto
  have g: "map (\<lambda>t. t\<lparr>position := last_match m (Suc i) xs t (position t)\<rparr>) ?u =
      map (\<lambda>t. t\<lparr>position := last_match m i (x # xs) t (position t)\<rparr>) us"
    using assms by (auto simp: last_match_position)
  show ?case using Cons.IH[of "Suc i" ?u] f g by (simp add: scan_all)
qed

lemma reorder_eq_spec:
  assumes "\<forall>x t p. m x (t\<lparr>position := p\<rparr>) = m x t"
  shows "reorder (\<lambda>x t. Inr (m x t)) (map Some xs) ts = Inr (reorder_spec m xs ts)"
proof -
  let ?g = "\<lambda>t. t\<lparr>position := last_match m 0 xs t (position t)\<rparr>"
  have "map (\<lambda>j. map ?g ts ! j) (filter (\<lambda>j. m x (ts ! j)) [0..<length ts]) = map ?g (filter (m x) ts)" for x
  proof -
    have "map (\<lambda>j. map ?g ts ! j) (filter (\<lambda>j. m x (ts ! j)) [0..<length ts]) =
        map ?g (map (\<lambda>j. ts ! j) (filter (\<lambda>j. m x (ts ! j)) [0..<length ts]))"
      by (auto intro!: map_cong)
    then show ?thesis by (simp only: filter_upt_nth)
  qed
  then show ?thesis
    using reorder_loop_eq[OF assms, of xs 0 ts "[]"]
    by (simp add: reorder_def reorder_spec_def map_concat comp_def)
qed

lemma last_match_none: "\<forall>x\<in>set xs. \<not> m x t \<Longrightarrow> last_match m i xs t p = p"
  by (induction xs arbitrary: i) auto

lemma last_match_unique:
  "k < length xs \<Longrightarrow> \<forall>j<length xs. m (xs ! j) t \<longleftrightarrow> j = k \<Longrightarrow> last_match m i xs t p = i + k"
proof (induction xs arbitrary: i k p)
  case Nil then show ?case by simp
next
  case (Cons x xs)
  show ?case
  proof (cases k)
    case 0
    with Cons.prems have "m x t" by auto
    moreover have "\<forall>y\<in>set xs. \<not> m y t"
    proof
      fix y assume "y \<in> set xs"
      then obtain j where j: "j < length xs" "xs ! j = y" by (auto simp: in_set_conv_nth)
      then have "m ((x # xs) ! Suc j) t \<longleftrightarrow> Suc j = k" using Cons.prems(2)[rule_format, of "Suc j"] by simp
      with j 0 show "\<not> m y t" by simp
    qed
    ultimately show ?thesis using 0 by (simp add: last_match_none)
  next
    case (Suc k')
    with Cons.prems have "\<not> m x t" "k' < length xs" "\<forall>j<length xs. m (xs ! j) t \<longleftrightarrow> j = k'"
      by auto
    with Suc Cons.IH show ?thesis by simp
  qed
qed

lemma reorder_null:
  "None \<in> set items \<Longrightarrow> ts \<noteq> [] \<Longrightarrow> reorder (\<lambda>x t. Inr (m x t)) items ts = Inl (TypeError ''item'')"
proof -
  have "None \<in> set items \<Longrightarrow> us \<noteq> [] \<Longrightarrow> reorder_loop (\<lambda>x t. Inr (m x t)) items i us refs = Inl (TypeError ''item'')"
    for i us refs
  proof (induction items arbitrary: i us refs)
    case Nil then show ?case by simp
  next
    case (Cons x xs)
    then show ?case by (cases x) (auto simp: scan_all)
  qed
  then show "None \<in> set items \<Longrightarrow> ts \<noteq> [] \<Longrightarrow> ?thesis" by (simp add: reorder_def)
qed

lemma rejoin_reorder:
  "f_fired f = [ts] \<Longrightarrow> ts \<noteq> [] \<Longrightarrow> reorder key items ts = res \<Longrightarrow>
   rejoin key wrap items f = (case res of Inl e \<Rightarrow> NeverSettles [e] | Inr us \<Rightarrow> Resolves (wrap us))"
  by (simp add: rejoin_def)

section \<open>Lemmas: invariants\<close>

lemma fan_ok_errors [simp]: "fan_ok P (f\<lparr>f_errors := e\<rparr>) = fan_ok P f"
  by (simp add: fan_ok_def)

lemma callback_tail_ok: "fan_ok P f \<Longrightarrow> fan_ok P (callback_tail n f)"
  by (auto simp: fan_ok_def callback_tail_def Let_def)

lemma sync_pass_ok: "fan_ok P f \<Longrightarrow> fan_ok P (fst (sync_pass q n xs k f ws))"
  by (induction q n xs k f ws rule: sync_pass.induct) (simp_all add: callback_tail_ok)

lemma complete_ok:
  "\<forall>x t u. mk x t = Some u \<longrightarrow> P u \<Longrightarrow> fan_ok P f \<Longrightarrow> fan_ok P (complete mk n items r f is)"
proof (induction "is" arbitrary: f)
  case Nil then show ?case by simp
next
  case (Cons i "is")
  have "\<forall>u\<in>set ts. P u" if "pushed mk x y = Some ts" for x y ts
    using that Cons.prems(1) by (cases x; cases y) (auto split: option.splits)
  then have push: "fan_ok P (f\<lparr>f_tracks := f_tracks f @ ts\<rparr>)" if "pushed mk (items ! i) (r i) = Some ts" for ts
    using that Cons.prems(2) by (auto simp: fan_ok_def)
  show ?case
  proof (cases "pushed mk (items ! i) (r i)")
    case None
    with Cons.IH Cons.prems show ?thesis by simp
  next
    case (Some ts)
    with push Cons.IH Cons.prems(1) callback_tail_ok show ?thesis by simp
  qed
qed

lemma fanout_ok: "\<forall>x t u. mk x t = Some u \<longrightarrow> P u \<Longrightarrow> fan_ok P (fanout q mk items r order)"
  unfolding fanout_def
  by (intro complete_ok sync_pass_ok) (simp_all add: fan_ok_def fan0_def)

lemma rejoin_resolves:
  "rejoin key wrap items f = Resolves v \<Longrightarrow> v \<noteq> LEmpty \<Longrightarrow>
   \<exists>ts us. ts \<in> set (f_fired f) \<and> reorder key items ts = Inr us \<and> v = wrap us"
  by (auto simp: rejoin_def split: list.splits if_splits sum.splits)

lemma same_but_position_trans:
  assumes "same_but_position us vs" "same_but_position vs ws"
  shows "same_but_position us ws"
  unfolding same_but_position_def
proof (intro conjI allI impI)
  show "length ws = length us" using assms by (simp add: same_but_position_def)
  fix j assume j: "j < length us"
  define a where "a = position (vs ! j)"
  define b where "b = position (ws ! j)"
  have "vs ! j = (us ! j)\<lparr>position := a\<rparr>" "ws ! j = (vs ! j)\<lparr>position := b\<rparr>"
    using assms j by (simp_all add: same_but_position_def a_def b_def)
  then have "ws ! j = (us ! j)\<lparr>position := b\<rparr>" by simp
  then show "ws ! j = (us ! j)\<lparr>position := position (ws ! j)\<rparr>" by (simp add: b_def)
qed

lemma scan_bounds:
  "scan key x i js us refs = Inr (us', refs') \<Longrightarrow> \<forall>j\<in>set js. j < length us \<Longrightarrow>
   \<forall>j\<in>set refs. j < length us \<and> position (us ! j) < Suc i \<Longrightarrow>
   same_but_position us us' \<and> (\<forall>j\<in>set refs'. j < length us' \<and> position (us' ! j) < Suc i)"
proof (induction js arbitrary: us refs)
  case Nil then show ?case by (simp add: same_but_position_def)
next
  case (Cons j js)
  show ?case
  proof (cases "key x (us ! j)")
    case (Inl e) with Cons.prems show ?thesis by simp
  next
    case (Inr b)
    show ?thesis
    proof (cases b)
      case True
      let ?u = "us[j := (us ! j)\<lparr>position := i\<rparr>]"
      have "same_but_position us ?u"
        using Cons.prems(2) by (auto simp: same_but_position_def nth_list_update)
      moreover have "same_but_position ?u us' \<and> (\<forall>j\<in>set refs'. j < length us' \<and> position (us' ! j) < Suc i)"
        using Cons.prems Inr True
        by (intro Cons.IH) (auto simp: nth_list_update)
      ultimately show ?thesis using same_but_position_trans by blast
    next
      case False
      with Cons.prems Inr show ?thesis by (intro Cons.IH) auto
    qed
  qed
qed

lemma reorder_loop_bounds:
  "reorder_loop key xs i us refs = Inr (us', refs') \<Longrightarrow>
   \<forall>j\<in>set refs. j < length us \<and> position (us ! j) < i \<Longrightarrow>
   same_but_position us us' \<and> (\<forall>j\<in>set refs'. j < length us' \<and> position (us' ! j) < i + length xs)"
proof (induction key xs i us refs rule: reorder_loop.induct)
  case (1 key i ts refs) then show ?case by (simp add: same_but_position_def)
next
  case (2 key xs i ts refs)
  then show ?case by (auto split: if_splits)
next
  case (3 key x xs i ts refs)
  then obtain u1 r1 where s: "scan key x i [0..<length ts] ts refs = Inr (u1, r1)"
    and l: "reorder_loop key xs (Suc i) u1 r1 = Inr (us', refs')"
    by (auto split: sum.splits)
  have "\<forall>j\<in>set refs. j < length ts \<and> position (ts ! j) < Suc i" using "3.prems"(2) by auto
  then have a: "same_but_position ts u1 \<and> (\<forall>j\<in>set r1. j < length u1 \<and> position (u1 ! j) < Suc i)"
    using scan_bounds[OF s] by simp
  then have "same_but_position u1 us' \<and> (\<forall>j\<in>set refs'. j < length us' \<and> position (us' ! j) < Suc i + length xs)"
    using "3.IH"[OF s refl l] by blast
  with a show ?case using same_but_position_trans by auto
qed

lemma reorder_bounds:
  "reorder key items ts = Inr vs \<Longrightarrow>
   \<forall>v\<in>set vs. position v < length items \<and> (\<exists>t\<in>set ts. v = t\<lparr>position := position v\<rparr>)"
proof -
  assume r: "reorder key items ts = Inr vs"
  then obtain us refs where l: "reorder_loop key items 0 ts [] = Inr (us, refs)" and v: "vs = map (\<lambda>j. us ! j) refs"
    by (auto simp: reorder_def split: sum.splits)
  from reorder_loop_bounds[OF l] have b: "same_but_position ts us"
      "\<forall>j\<in>set refs. j < length us \<and> position (us ! j) < length items" by auto
  show ?thesis
  proof
    fix u assume "u \<in> set vs"
    then obtain j where j: "j \<in> set refs" "u = us ! j" using v by auto
    with b have "j < length ts" "u = (ts ! j)\<lparr>position := position u\<rparr>" "position u < length items"
      by (auto simp: same_but_position_def)
    then show "position u < length items \<and> (\<exists>t\<in>set ts. u = t\<lparr>position := position u\<rparr>)" by auto
  qed
qed

lemma rejoin_wellformed:
  assumes "rejoin key wrap items (fanout q mk items r order) = Resolves v" "v \<noteq> LEmpty"
    and "\<forall>x t u. mk x t = Some u \<longrightarrow> P u" "\<forall>u p. P u \<longrightarrow> P (u\<lparr>position := p\<rparr>)"
  shows "\<exists>us. v = wrap us \<and> (\<forall>u\<in>set us. position u < length items \<and> P u)"
proof -
  obtain ts us where ts: "ts \<in> set (f_fired (fanout q mk items r order))"
    and re: "reorder key items ts = Inr us" and v: "v = wrap us"
    using rejoin_resolves[OF assms(1,2)] by blast
  have "\<forall>t\<in>set ts. P t" using fanout_ok[OF assms(3)] ts by (auto simp: fan_ok_def)
  then have "\<forall>u\<in>set us. position u < length items \<and> P u"
    using reorder_bounds[OF re] assms(4) by metis
  with v show ?thesis by blast
qed

section \<open>Properties of the fan-out\<close>

text \<open>
  C30.  When every item is null or can build its query, and no resumed callback
  throws, then whatever the order in which the searches return, exactly one callback
  rejoins, and the list it holds is every pushed track, in completion order.
\<close>

theorem fanout_rejoins_once:
  assumes "items \<noteq> []" "\<forall>x\<in>set items. x = None \<or> waits q x"
    and "mset order = mset (waiting q items)"
    and "\<forall>i\<in>set order. pushed mk (items ! i) (r i) \<noteq> None"
  shows "f_fired (fanout q mk items r order) = [concat (map (\<lambda>i. the (pushed mk (items ! i) (r i))) order)]"
proof -
  obtain f1 ws where s: "sync_pass q (length items) items 0 fan0 [] = (f1, ws)" by fastforce
  have ws: "ws = waiting q items" using s by (simp add: waiting_def)
  have len: "length order = length (filter (waits q) items)"
    using assms(3) length_waiting by (metis size_mset)
  show ?thesis
  proof (cases "\<forall>x\<in>set items. x = None")
    case True
    then have "filter (waits q) items = []" by (auto simp: filter_empty_conv)
    with len have "order = []" by simp
    with True s assms(1) sync_pass_fan0[OF s] show ?thesis by (simp add: fanout_def)
  next
    case False
    then obtain y where y: "Some y \<in> set items" by (metis not_None_eq)
    have "filter (waits q) items = filter (\<lambda>x. \<not> x = None) items"
      using assms(2) by (intro filter_cong) (auto dest: waits_not_None)
    then have n: "length (filter (\<lambda>x. x = None) items) + length order = length items"
      using len sum_length_filter_compl[of "\<lambda>x. x = None" items] by simp
    have "length (filter (\<lambda>x. x = None) items) < length items"
      using y by (intro length_filter_removes_member) auto
    with n have "order \<noteq> []" by auto
    with False n assms(4) sync_pass_fan0[OF s] show ?thesis
      by (simp add: fanout_def s complete_fires_last)
  qed
qed

text \<open>
  C31.  When one item cannot build its query (a track with no artist), its callback
  throws before the counter: no callback ever rejoins, whatever the completion order,
  and the \<open>TypeError\<close> is left as an unhandled rejection.
\<close>

theorem fanout_dead_never_rejoins:
  assumes "Some y \<in> set items" "\<not> q y" "mset order = mset (waiting q items)"
  shows "f_fired (fanout q mk items r order) = [] \<and> TypeError ''query'' \<in> set (f_errors (fanout q mk items r order))"
proof -
  obtain f1 ws where s: "sync_pass q (length items) items 0 fan0 [] = (f1, ws)" by fastforce
  have len: "length order = length (filter (waits q) items)"
    using assms(3) length_waiting by (metis size_mset)
  have sub: "filter (waits q) items = filter (waits q) (filter (\<lambda>x. \<not> x = None) items)"
    by (auto simp: filter_filter intro!: filter_cong dest: waits_not_None)
  have "length (filter (waits q) items) < length (filter (\<lambda>x. \<not> x = None) items)"
    unfolding sub by (rule length_filter_removes_member) (use assms in auto)
  then have lt: "length (filter (\<lambda>x. x = None) items) + length order < length items"
    using len sum_length_filter_compl[of "\<lambda>x. x = None" items] by simp
  have ok: "length (filter (\<lambda>i. pushed mk (items ! i) (r i) \<noteq> None) order) \<le> length order"
    by (rule length_filter_le)
  have "\<not> (\<forall>x\<in>set items. x = None)" using assms(1) by auto
  with sync_pass_fan0[OF s] have "f_fired f1 = []" "f_index f1 = length (filter (\<lambda>x. x = None) items)"
    by auto
  moreover from this(2) lt ok
  have "f_index f1 + length (filter (\<lambda>i. pushed mk (items ! i) (r i) \<noteq> None) order) < length items"
    by linarith
  moreover have "Some y \<in> set (filter (\<lambda>x. x \<noteq> None \<and> \<not> waits q x) items)"
    using assms(1,2) by simp
  then have "TypeError ''query'' \<in> set (f_errors f1)"
    using sync_pass_fan0[OF s] by (auto simp: image_iff)
  ultimately show ?thesis
    by (simp add: fanout_def s complete_never_fires complete_errors)
qed

end
