(* ===== verification/Spotify.thy ===== *)
theory Spotify
  imports Spotify_Fanout
begin

text \<open>
  The Spotify source, src/src/sources/spotify.js: the token bootstrap \<open>init\<close>, the
  busy wait at the start of \<open>search\<close>, the endpoint table and error handling of
  \<open>loadFrom\<close>, and the asynchronous fan-out shared by \<open>search\<close> and \<open>loadFrom\<close>:
  every result item starts a \<open>searchWithDefault\<close> call, each callback pushes its
  track when its call returns, and the callback that sees the shared counter
  \<open>index\<close> at \<open>length - 1\<close> rejoins by rebuilding the list in the items' order.
  The HTTP requests and \<open>searchWithDefault\<close> are collaborators: their answers are
  inputs, and the order in which the calls return is an arbitrary permutation.
\<close>

section \<open>Token bootstrap and the busy wait\<close>

text \<open>The module-level \<open>playerInfo\<close> (line 8, set at lines 57-60).\<close>

record player_info =
  accessToken :: "string option"
  clientToken :: "string option"

text \<open>\<open>let playerInfo = {}\<close> (line 8).\<close>

definition player_info0 :: player_info where
  "player_info0 = \<lparr>accessToken = None, clientToken = None\<rparr>"

text \<open>
  Answers of the two token requests: \<open>None\<close> when \<open>typeof\<close> the answer is not
  \<open>'object'\<close>; otherwise the fields read (\<open>accessToken\<close>; \<open>response_type\<close> and
  \<open>granted_token.token\<close>).
\<close>

datatype token_answer = TokenObject "string option"

datatype client_token_answer = ClientTokenObject string "string option"

text \<open>\<open>init()\<close> (lines 10-63): \<open>playerInfo\<close> is replaced only when both answers are good.\<close>

definition init :: "token_answer option \<Rightarrow> client_token_answer option \<Rightarrow> player_info \<Rightarrow> player_info" where
  "init tok dat p =
     (case tok of
        None \<Rightarrow> p
      | Some (TokenObject at) \<Rightarrow>
          (case dat of
             None \<Rightarrow> p
           | Some (ClientTokenObject rt ct) \<Rightarrow>
               (if rt \<noteq> ''RESPONSE_GRANTED_TOKEN_RESPONSE'' then p
                else \<lparr>accessToken = at, clientToken = ct\<rparr>)))"

definition token_truthy :: "player_info \<Rightarrow> bool" where
  "token_truthy p = (case accessToken p of None \<Rightarrow> False | Some t \<Rightarrow> truthy_str t)"

text \<open>
  Lines 67-71: \<open>while (1) { if (playerInfo.accessToken) break; sleep(200) }\<close>.
  \<open>sleep(200)\<close> is not awaited, so the loop never yields to the scheduler and
  nothing can change \<open>playerInfo\<close> while it spins: its body is the identity.
  \<open>None\<close> is "the loop does not return".
\<close>

definition search_wait :: "player_info \<Rightarrow> player_info option" where
  "search_wait p =
     (if \<not> token_truthy p then while_option (\<lambda>q. \<not> token_truthy q) (\<lambda>q. q) p else Some p)"

section \<open>loadFrom: endpoints and errors\<close>

text \<open>The \<open>switch (type[1])\<close> of lines 187-211; \<open>None\<close> is the \<open>default\<close> branch.\<close>

definition endpoint_of :: "string \<Rightarrow> string \<Rightarrow> string \<Rightarrow> string option" where
  "endpoint_of kind ident market =
     (if kind = ''track'' then Some (''/tracks/'' @ ident)
      else if kind = ''playlist'' then Some (''/playlists/'' @ ident)
      else if kind = ''album'' then Some (''/albums/'' @ ident)
      else if kind = ''episode'' then Some (''/episodes/'' @ ident @ ''?market='' @ market)
      else if kind = ''show'' then Some (''/shows/'' @ ident @ ''?market='' @ market)
      else None)"

text \<open>
  The \<open>data.error\<close> object of the API answer: \<open>status\<close> and \<open>message\<close>.
\<close>

datatype api_error = ApiError int string

text \<open>
  Lines 222-251.  On status 401 the code calls \<open>setSpotifyToken()\<close>, a name neither
  defined nor imported in spotify.js: a \<open>ReferenceError\<close> inside the executor, so
  the retry below it never runs.  \<open>None\<close>: no error, the handler goes on.
\<close>

definition load_error :: "api_error option \<Rightarrow> load_result settlement option" where
  "load_error e =
     (case e of
        None \<Rightarrow> None
      | Some (ApiError st msg) \<Rightarrow>
          (if st = 401 then Some (NeverSettles [ReferenceError ''setSpotifyToken''])
           else if st = 400 then Some (Resolves LEmpty)
           else if msg = ''Invalid playlist Id'' then Some (Resolves LEmpty)
           else Some (Resolves (LError msg))))"

section \<open>Result items and the tracks built from them\<close>

text \<open>
  A result item: \<open>items.item.data\<close> of a search (lines 123-139), or a track of a
  playlist (\<open>item.track\<close>) or album (\<open>item\<close>) in \<open>loadFrom\<close>: name, artist names,
  duration, URI, ISRC.
\<close>

record sp_item =
  it_name :: string
  it_artists :: "string list"
  it_duration :: nat
  it_uri :: string
  it_isrc :: "string option"

text \<open>\<open>Array.prototype.join(sep)\<close>.\<close>

fun join_str :: "string \<Rightarrow> string list \<Rightarrow> string" where
  "join_str sep [] = []"
| "join_str sep [x] = x"
| "join_str sep (x # y # xs) = x @ sep @ join_str sep (y # xs)"

text \<open>Lines 127-140: the track a search callback builds from its item and the first hit.\<close>

definition track_of_item :: "sp_item \<Rightarrow> track_info \<Rightarrow> track_info" where
  "track_of_item it t =
     \<lparr>trackIdentifier = trackIdentifier t, isSeekable = True, author = join_str '', '' (it_artists it),
      length_ms = it_duration it, isStream = False, position = 0, title = it_name it,
      uri = it_uri it, artworkUrl = artworkUrl t, isrc = it_isrc it, sourceName = ''spotify''\<rparr>"

text \<open>The three parameters of the fan-out of \<open>search\<close>: the query
  \<open>items.artists.items[0].profile.name\<close> (line 125), the track (lines 127-140) and
  the test of the rejoin (line 160).\<close>

definition search_query_ok :: "sp_item \<Rightarrow> bool" where
  "search_query_ok it \<longleftrightarrow> it_artists it \<noteq> []"

definition search_mk :: "sp_item \<Rightarrow> track_info \<Rightarrow> track_info option" where
  "search_mk it t = Some (track_of_item it t)"

definition search_match :: "sp_item \<Rightarrow> track_info \<Rightarrow> bool" where
  "search_match it t \<longleftrightarrow> title t = it_name it \<and> author t = join_str '', '' (it_artists it)"

definition search_key :: "sp_item \<Rightarrow> track_info \<Rightarrow> bool js_result" where
  "search_key it t = Inr (search_match it t)"

section \<open>search\<close>

text \<open>
  \<open>search(query)\<close> (lines 65-180), from the answer of the search request: its
  \<open>totalCount\<close> and its items; \<open>None\<close> when the call never returns (the busy wait).
  The items beyond \<open>maxResultsLength\<close> are cut by \<open>splice(0, max)\<close>.
\<close>

definition search ::
  "nat \<Rightarrow> player_info \<Rightarrow> nat \<Rightarrow> sp_item option list \<Rightarrow> (nat \<Rightarrow> track_info option) \<Rightarrow> nat list \<Rightarrow>
   load_result settlement option" where
  "search maxResults p totalCount items r order =
     (case search_wait p of
        None \<Rightarrow> None
      | Some _ \<Rightarrow>
          Some (if totalCount = 0 then Resolves LEmpty
                else let its = take maxResults items
                     in rejoin search_key LSearch its (fanout search_query_ok search_mk its r order)))"

section \<open>loadFrom\<close>

text \<open>A show episode (lines 409-435): name, \<open>show.publisher\<close>, the top-level
  \<open>publisher\<close> read by the rejoin (line 446), URI, image URLs, ISRC.\<close>

record sp_episode =
  ep_name :: string
  ep_show_publisher :: string
  ep_publisher :: "string option"
  ep_uri :: string
  ep_images :: "string list"
  ep_isrc :: "string option"

text \<open>
  The fields of the API object \<open>data\<close> that the branches read: \<open>name\<close>,
  \<open>artists[].name\<close>, \<open>external_urls.spotify\<close>, the image URLs (\<open>album.images\<close> of a
  track, \<open>images\<close> of an episode), \<open>external_ids.isrc\<close>, \<open>show.publisher\<close>,
  \<open>tracks.items\<close> (the \<open>track\<close> of each playlist entry, each album entry itself) and
  \<open>episodes.items\<close>.
\<close>

record sp_object =
  o_name :: string
  o_artists :: "string list"
  o_uri :: string
  o_images :: "string list"
  o_isrc :: "string option"
  o_publisher :: string
  o_items :: "sp_item option list"
  o_episodes :: "sp_episode list"

text \<open>
  The single-track branches (lines 254-286 and 287-319), from the answer \<open>d\<close> of
  \<open>searchWithDefault\<close>: a non-\<open>'search'\<close> answer is passed on; reading
  \<open>artists[0]\<close>, \<open>data[0]\<close> or \<open>images[0]\<close> of an empty list throws.
\<close>

definition load_single :: "string \<Rightarrow> string list \<Rightarrow> sp_object \<Rightarrow> load_result \<Rightarrow> load_result settlement" where
  "load_single auth imgs obj d =
     (case d of
        LSearch [] \<Rightarrow> NeverSettles [TypeError ''data[0]'']
      | LSearch (t # _) \<Rightarrow>
          (case imgs of
             [] \<Rightarrow> NeverSettles [TypeError ''images[0]'']
           | img # _ \<Rightarrow>
               Resolves (LTrack \<lparr>trackIdentifier = trackIdentifier t, isSeekable = True, author = auth,
                 length_ms = length_ms t, isStream = False, position = 0, title = o_name obj,
                 uri = o_uri obj, artworkUrl = img, isrc = o_isrc obj, sourceName = ''spotify''\<rparr>))
      | _ \<Rightarrow> Resolves d)"

definition load_track :: "sp_object \<Rightarrow> load_result \<Rightarrow> load_result settlement" where
  "load_track obj d =
     (case o_artists obj of
        [] \<Rightarrow> NeverSettles [TypeError ''artists[0]'']
      | a # _ \<Rightarrow> load_single a (o_images obj) obj d)"

definition load_episode :: "sp_object \<Rightarrow> load_result \<Rightarrow> load_result settlement" where
  "load_episode obj d = load_single (o_publisher obj) (o_images obj) obj d"

text \<open>The parameters of the playlist and album fan-out (lines 320-400): the query and
  the author read \<open>artists[0].name\<close>, \<open>isrc\<close> is \<open>null\<close>, and the rejoin reads
  \<open>artists[0].name\<close> only when the titles are equal (\<open>&&\<close>).\<close>

definition list_query_ok :: "sp_item \<Rightarrow> bool" where
  "list_query_ok it \<longleftrightarrow> it_artists it \<noteq> []"

definition list_mk :: "sp_item \<Rightarrow> track_info \<Rightarrow> track_info option" where
  "list_mk it t =
     (case it_artists it of
        [] \<Rightarrow> None
      | a # _ \<Rightarrow>
          Some \<lparr>trackIdentifier = trackIdentifier t, isSeekable = True, author = a,
            length_ms = length_ms t, isStream = False, position = 0, title = it_name it,
            uri = it_uri it, artworkUrl = artworkUrl t, isrc = None, sourceName = ''spotify''\<rparr>)"

definition list_key :: "sp_item \<Rightarrow> track_info \<Rightarrow> bool js_result" where
  "list_key it t =
     (if title t = it_name it then
        (case it_artists it of [] \<Rightarrow> Inl (TypeError ''artists[0]'') | a # _ \<Rightarrow> Inr (author t = a))
      else Inr False)"

definition load_list :: "string \<Rightarrow> nat \<Rightarrow> sp_object \<Rightarrow> (nat \<Rightarrow> track_info option) \<Rightarrow> nat list \<Rightarrow> load_result settlement" where
  "load_list kind maxLen obj r order =
     (let its = take maxLen (o_items obj)
      in rejoin list_key (LList kind (o_name obj)) its (fanout list_query_ok list_mk its r order))"

text \<open>The parameters of the show fan-out (lines 401-476): every query can be built,
  \<open>episode.images[0]\<close> is read when the track is built, and the rejoin compares the
  author with \<open>episode2.publisher\<close>.\<close>

definition show_mk :: "sp_episode \<Rightarrow> track_info \<Rightarrow> track_info option" where
  "show_mk e t =
     (case ep_images e of
        [] \<Rightarrow> None
      | img # _ \<Rightarrow>
          Some \<lparr>trackIdentifier = trackIdentifier t, isSeekable = True, author = ep_show_publisher e,
            length_ms = length_ms t, isStream = False, position = 0, title = ep_name e,
            uri = ep_uri e, artworkUrl = img, isrc = ep_isrc e, sourceName = ''spotify''\<rparr>)"

definition show_match :: "sp_episode \<Rightarrow> track_info \<Rightarrow> bool" where
  "show_match e t \<longleftrightarrow> title t = ep_name e \<and> Some (author t) = ep_publisher e"

definition show_key :: "sp_episode \<Rightarrow> track_info \<Rightarrow> bool js_result" where
  "show_key e t = Inr (show_match e t)"

definition load_show :: "nat \<Rightarrow> sp_object \<Rightarrow> (nat \<Rightarrow> track_info option) \<Rightarrow> nat list \<Rightarrow> load_result settlement" where
  "load_show maxLen obj r order =
     (let eps = map Some (take maxLen (o_episodes obj))
      in rejoin show_key (LList ''show'' (o_name obj)) eps (fanout (\<lambda>e. True) show_mk eps r order))"

text \<open>
  \<open>loadFrom(query, type)\<close> (lines 183-479), from the answer of the API request (its
  \<open>error\<close> and its object) and the answers of \<open>searchWithDefault\<close>: \<open>d\<close> for a
  single track or episode, \<open>r\<close> and \<open>order\<close> for a fan-out.
\<close>

definition loadFrom ::
  "string \<Rightarrow> string \<Rightarrow> string \<Rightarrow> nat \<Rightarrow> api_error option \<Rightarrow> sp_object \<Rightarrow> load_result \<Rightarrow>
   (nat \<Rightarrow> track_info option) \<Rightarrow> nat list \<Rightarrow> load_result settlement" where
  "loadFrom kind ident market maxLen err obj d r order =
     (case endpoint_of kind ident market of
        None \<Rightarrow> Resolves LEmpty
      | Some _ \<Rightarrow>
          (case load_error err of
             Some s \<Rightarrow> s
           | None \<Rightarrow>
               (if kind = ''track'' then load_track obj d
                else if kind = ''episode'' then load_episode obj d
                else if kind = ''show'' then load_show maxLen obj r order
                else load_list kind maxLen obj r order)))"

text \<open>What the search callback of item \<open>i\<close> pushes (lines 127-146).\<close>

definition search_hit :: "sp_item list \<Rightarrow> (nat \<Rightarrow> track_info option) \<Rightarrow> nat \<Rightarrow> track_info list" where
  "search_hit xs r i = (case r i of None \<Rightarrow> [] | Some t \<Rightarrow> [track_of_item (xs ! i) t])"

text \<open>
  The reference answer of a search over items with distinct names and artists: the
  track of every item whose default search hit, in the items' order, each at the
  item's index.
\<close>

definition search_ranked :: "sp_item list \<Rightarrow> (nat \<Rightarrow> track_info option) \<Rightarrow> track_info list" where
  "search_ranked xs r =
     concat (map (\<lambda>k. case r k of None \<Rightarrow> [] | Some t \<Rightarrow> [(track_of_item (xs ! k) t)\<lparr>position := k\<rparr>]) [0..<length xs])"

text \<open>A track as the Spotify source builds it.\<close>

definition spotify_track :: "track_info \<Rightarrow> bool" where
  "spotify_track u \<longleftrightarrow> sourceName u = ''spotify'' \<and> isSeekable u \<and> \<not> isStream u"

section \<open>Examples\<close>

definition ex_item :: sp_item where
  "ex_item = \<lparr>it_name = ''Song'', it_artists = [''Artist''], it_duration = 200000, it_uri = ''spotify:track:1'', it_isrc = None\<rparr>"

definition ex_hit :: "string \<Rightarrow> track_info" where
  "ex_hit ident = \<lparr>trackIdentifier = ident, isSeekable = True, author = ''Artist'', length_ms = 200000,
     isStream = False, position = 0, title = ''Song'', uri = ''yt:'' @ ident, artworkUrl = ''art'',
     isrc = None, sourceName = ''youtube''\<rparr>"

definition ex_token :: player_info where
  "ex_token = \<lparr>accessToken = Some ''tok'', clientToken = Some ''ct''\<rparr>"

definition ex_item2 :: sp_item where
  "ex_item2 = ex_item\<lparr>it_name := ''Other song''\<rparr>"

definition ex_noartist :: sp_item where
  "ex_noartist = ex_item\<lparr>it_artists := []\<rparr>"

definition ex_r :: "nat \<Rightarrow> track_info option" where
  "ex_r i = (if i = 0 then Some (ex_hit ''a'') else None)"

definition ex_episode :: sp_episode where
  "ex_episode = \<lparr>ep_name = ''Episode'', ep_show_publisher = ''Publisher'', ep_publisher = None,
     ep_uri = ''spotify:episode:1'', ep_images = [''img''], ep_isrc = None\<rparr>"

definition ex_show :: sp_object where
  "ex_show = \<lparr>o_name = ''Show'', o_artists = [], o_uri = ''spotify:show:1'', o_images = [], o_isrc = None,
     o_publisher = ''Publisher'', o_items = [], o_episodes = [ex_episode]\<rparr>"

definition ex_playlist :: sp_object where
  "ex_playlist = \<lparr>o_name = ''Mix'', o_artists = [], o_uri = ''spotify:playlist:1'', o_images = [], o_isrc = None,
     o_publisher = [], o_items = [Some ex_item], o_episodes = []\<rparr>"

definition ex_list_track :: track_info where
  "ex_list_track = \<lparr>trackIdentifier = ''a'', isSeekable = True, author = ''Artist'', length_ms = 200000,
     isStream = False, position = 0, title = ''Song'', uri = ''spotify:track:1'', artworkUrl = ''art'',
     isrc = None, sourceName = ''spotify''\<rparr>"

lemmas sp_ex_defs = ex_item_def ex_item2_def ex_noartist_def ex_hit_def ex_token_def ex_r_def
  ex_episode_def ex_show_def

section \<open>Lemmas\<close>

lemma search_wait_never_returns:
  assumes "\<not> token_truthy p"
  shows "search_wait p = None"
  using assms by (simp add: search_wait_def while_option_id_None)

lemma search_key_eq: "search_key = (\<lambda>x t. Inr (search_match x t))"
  by (intro ext) (simp add: search_key_def)

lemma show_key_eq: "show_key = (\<lambda>x t. Inr (show_match x t))"
  by (intro ext) (simp add: show_key_def)

lemma search_match_position [simp]: "search_match x (t\<lparr>position := p\<rparr>) = search_match x t"
  by (simp add: search_match_def)

lemma show_match_position [simp]: "show_match x (t\<lparr>position := p\<rparr>) = show_match x t"
  by (simp add: show_match_def)

lemma token_truthy_init:
  "token_truthy (init tok dat player_info0) \<longleftrightarrow>
   (\<exists>at ct. tok = Some (TokenObject (Some at)) \<and> at \<noteq> [] \<and>
            dat = Some (ClientTokenObject ''RESPONSE_GRANTED_TOKEN_RESPONSE'' ct))"
  by (auto simp: init_def token_truthy_def player_info0_def truthy_str_def
      split: option.splits token_answer.splits client_token_answer.splits)

lemma search_wait_truthy: "token_truthy p \<Longrightarrow> search_wait p = Some p"
  by (simp add: search_wait_def)

lemma search_match_track:
  "search_match y (track_of_item x t) \<longleftrightarrow> it_name x = it_name y \<and> join_str '', '' (it_artists x) = join_str '', '' (it_artists y)"
  by (auto simp: search_match_def track_of_item_def)

lemma pushed_search_mk: "pushed search_mk x y \<noteq> None"
  by (cases x; cases y) (simp_all add: search_mk_def)

lemma pushed_show_mk: "ep_images e \<noteq> [] \<Longrightarrow> pushed show_mk (Some e) y \<noteq> None"
  by (cases y) (auto simp: show_mk_def neq_Nil_conv)

lemma spotify_track_position: "\<forall>u p. spotify_track u \<longrightarrow> spotify_track (u\<lparr>position := p\<rparr>)"
  by (simp add: spotify_track_def)

lemma mk_spotify:
  "\<forall>x t u. search_mk x t = Some u \<longrightarrow> spotify_track u"
  "\<forall>x t u. list_mk x t = Some u \<longrightarrow> spotify_track u"
  "\<forall>x t u. show_mk x t = Some u \<longrightarrow> spotify_track u"
  by (auto simp: search_mk_def list_mk_def show_mk_def spotify_track_def track_of_item_def
      split: list.splits)

lemma load_error_not_list: "load_error e = Some s \<Longrightarrow> s \<noteq> Resolves (LList k nm us)"
  by (auto simp: load_error_def split: option.splits api_error.splits if_splits)

lemma search_fanout_fired:
  assumes "xs \<noteq> []" "\<forall>x\<in>set xs. it_artists x \<noteq> []" "mset order = mset (waiting search_query_ok (map Some xs))"
  shows "f_fired (fanout search_query_ok search_mk (map Some xs) r order) = [concat (map (search_hit xs r) order)]"
proof -
  have "mset order = mset [0..<length xs]"
    using assms by (simp add: waiting_all search_query_ok_def)
  then have lt: "\<forall>i\<in>set order. i < length xs" by (metis atLeastLessThan_iff mset_eq_setD set_upt)
  have "f_fired (fanout search_query_ok search_mk (map Some xs) r order) =
        [concat (map (\<lambda>i. the (pushed search_mk (map Some xs ! i) (r i))) order)]"
    using assms by (intro fanout_rejoins_once) (auto simp: search_query_ok_def pushed_search_mk)
  also have "map (\<lambda>i. the (pushed search_mk (map Some xs ! i) (r i))) order = map (search_hit xs r) order"
    using lt by (intro map_cong) (auto simp: search_mk_def search_hit_def split: option.split)
  finally show ?thesis .
qed

lemma search_reorder_spec_ranked:
  assumes "distinct (map (\<lambda>x. (it_name x, join_str '', '' (it_artists x))) xs)"
    and perm: "mset order = mset [0..<length xs]"
  shows "reorder_spec search_match xs (concat (map (search_hit xs r) order)) = search_ranked xs r"
proof -
  let ?n = "length xs"
  let ?ts = "concat (map (search_hit xs r) order)"
  have lt: "\<forall>i\<in>set order. i < ?n" using perm by (metis atLeastLessThan_iff mset_eq_setD set_upt)
  have match: "search_match (xs ! j) (track_of_item (xs ! i) t') \<longleftrightarrow> i = j" if "i < ?n" "j < ?n" for i j t'
    using that nth_eq_iff_index_eq[OF assms(1), of i j] by (auto simp: search_match_track)
  have lm: "last_match search_match 0 xs (track_of_item (xs ! i) t') p = i" if "i < ?n" for i t' p
    using last_match_unique[of i xs search_match "track_of_item (xs ! i) t'" 0 p] that match by auto
  have col: "filter (search_match (xs ! j)) ?ts = search_hit xs r j" if "j < ?n" for j
    using that lt count_list_perm_upt[OF perm, of j] match
    by (intro filter_concat_map_single) (auto simp: search_hit_def split: option.split)
  have "reorder_spec search_match xs ?ts =
      concat (map (\<lambda>j. map (\<lambda>t. t\<lparr>position := last_match search_match 0 xs t (position t)\<rparr>)
        (filter (search_match (xs ! j)) ?ts)) [0..<?n])"
    unfolding reorder_spec_def by (subst map_nth[symmetric]) (simp only: map_map comp_def)
  also have "\<dots> = search_ranked xs r"
    unfolding search_ranked_def using col lm
    by (intro arg_cong[where f = concat] map_cong) (auto simp: search_hit_def split: option.split)
  finally show ?thesis .
qed

section \<open>Properties of search and loadFrom\<close>

theorem fanout_rejoins_once_witness:
  "f_fired (fanout search_query_ok search_mk [Some ex_item, None] ex_r [0]) =
   [[track_of_item ex_item (ex_hit ''a'')]]"
  using Spotify_Fanout.fanout_rejoins_once[where items = "[Some ex_item, None]" and q = search_query_ok
      and mk = search_mk and r = ex_r and order = "[0]"]
  by (simp add: sp_ex_defs search_query_ok_def search_mk_def waiting_def fan0_def callback_tail_def)

theorem fanout_dead_never_rejoins_witness:
  "f_fired (fanout search_query_ok search_mk [Some ex_noartist, Some ex_item] ex_r [1]) = [] \<and>
   TypeError ''query'' \<in> set (f_errors (fanout search_query_ok search_mk [Some ex_noartist, Some ex_item] ex_r [1]))"
  using Spotify_Fanout.fanout_dead_never_rejoins[where items = "[Some ex_noartist, Some ex_item]" and y = ex_noartist
      and q = search_query_ok and mk = search_mk and r = ex_r and order = "[1]"]
  by (simp add: sp_ex_defs search_query_ok_def waiting_def fan0_def callback_tail_def)

text \<open>
  C32.  Over result items with distinct names and artists, each with an artist, a
  search that finds at least one track resolves, whatever the order in which its
  default searches return, with the track of every item that hit, in the items'
  order, each carrying its item's index as position.
\<close>

theorem search_ranked_result:
  assumes "token_truthy p" "totalCount \<noteq> 0" "length xs \<le> maxResults"
    and "\<forall>x\<in>set xs. it_artists x \<noteq> []"
    and "distinct (map (\<lambda>x. (it_name x, join_str '', '' (it_artists x))) xs)"
    and "\<exists>k<length xs. r k \<noteq> None"
    and "mset order = mset (waiting search_query_ok (map Some xs))"
  shows "search maxResults p totalCount (map Some xs) r order = Some (Resolves (LSearch (search_ranked xs r)))"
proof -
  have perm: "mset order = mset [0..<length xs]"
    using assms(4,7) by (simp add: waiting_all search_query_ok_def)
  define ts where "ts = concat (map (search_hit xs r) order)"
  obtain k t where k: "k < length xs" "r k = Some t" using assms(6) by auto
  then have xne: "xs \<noteq> []" by auto
  have "k \<in> set order" using count_list_perm_upt[OF perm, of k] k(1) by (metis count_notin zero_neq_one)
  moreover have "search_hit xs r k \<noteq> []" using k by (simp add: search_hit_def)
  ultimately have ne: "ts \<noteq> []" unfolding ts_def by (rule concat_map_nonempty)
  have "reorder search_key (map Some xs) ts = Inr (search_ranked xs r)"
    unfolding search_key_eq ts_def
    by (simp add: reorder_eq_spec search_reorder_spec_ranked[OF assms(5) perm])
  with assms(1,2,3) ne show ?thesis
    by (simp add: search_def search_wait_truthy rejoin_def search_fanout_fired[OF xne assms(4,7)] ts_def Let_def)
qed

theorem search_ranked_result_witness:
  "search 10 ex_token 2 [Some ex_item, Some ex_item2] ex_r [1, 0] =
   Some (Resolves (LSearch [(track_of_item ex_item (ex_hit ''a''))\<lparr>position := 0\<rparr>]))"
  using search_ranked_result[where p = ex_token and totalCount = 2 and maxResults = 10
      and xs = "[ex_item, ex_item2]" and r = ex_r and order = "[1, 0]"]
  by (simp add: sp_ex_defs token_truthy_def search_query_ok_def waiting_def fan0_def callback_tail_def
      search_ranked_def)

text \<open>
  C33.  The rejoin of a search over non-null items refines its reference
  specification: for each item in order, the tracks it matches, in their order, each
  carrying the index of the last item it matches (the aliasing through the shared
  track objects).
\<close>

theorem search_reorder_refines:
  "reorder search_key (map Some xs) ts = Inr (reorder_spec search_match xs ts)"
  unfolding search_key_eq by (rule reorder_eq_spec) simp

text \<open>
  C34.  From the initial empty player info, a search returns at all exactly when
  \<open>init\<close> got an object with a non-empty access token and a granted client token;
  otherwise the busy wait never ends.
\<close>

theorem search_requires_token:
  "search maxResults (init tok dat player_info0) totalCount items r order \<noteq> None \<longleftrightarrow>
   (\<exists>at ct. tok = Some (TokenObject (Some at)) \<and> at \<noteq> [] \<and>
            dat = Some (ClientTokenObject ''RESPONSE_GRANTED_TOKEN_RESPONSE'' ct))"
proof -
  have "search maxResults (init tok dat player_info0) totalCount items r order \<noteq> None \<longleftrightarrow>
      token_truthy (init tok dat player_info0)"
    by (cases "token_truthy (init tok dat player_info0)")
       (simp_all add: search_def search_wait_truthy search_wait_never_returns)
  then show ?thesis by (simp only: token_truthy_init)
qed

theorem search_requires_token_witness:
  "search 10 (init (Some (TokenObject (Some ''tok''))) (Some (ClientTokenObject ''RESPONSE_GRANTED_TOKEN_RESPONSE'' (Some ''ct''))) player_info0) 0 [] ex_r [] \<noteq> None \<and>
   search 10 (init None None player_info0) 0 [] ex_r [] = None"
  using search_requires_token[where tok = "Some (TokenObject (Some ''tok''))"
      and dat = "Some (ClientTokenObject ''RESPONSE_GRANTED_TOKEN_RESPONSE'' (Some ''ct''))"
      and maxResults = 10 and totalCount = 0 and items = "[]" and r = ex_r and order = "[]"]
    search_requires_token[where tok = None and dat = None
      and maxResults = 10 and totalCount = 0 and items = "[]" and r = ex_r and order = "[]"]
  by simp

text \<open>
  C35.  A search whose items contain a null entry and at least one hit never settles:
  the rejoin reads \<open>items2.item\<close> of the null item and throws a \<open>TypeError\<close>.
\<close>

theorem search_null_item_never_settles:
  assumes "token_truthy p" "totalCount \<noteq> 0" "length items \<le> maxResults"
    and "None \<in> set items" "\<forall>x\<in>set items. x = None \<or> waits search_query_ok x"
    and "k < length items" "items ! k \<noteq> None" "r k \<noteq> None"
    and "mset order = mset (waiting search_query_ok items)"
  shows "search maxResults p totalCount items r order = Some (NeverSettles [TypeError ''item''])"
proof -
  let ?g = "\<lambda>i. the (pushed search_mk (items ! i) (r i))"
  have fired: "f_fired (fanout search_query_ok search_mk items r order) = [concat (map ?g order)]"
    using assms(4,5,9) by (intro fanout_rejoins_once) (auto simp: pushed_search_mk)
  have "waits search_query_ok (items ! k)" using assms(5,6,7) nth_mem by fastforce
  moreover have "set order = set (waiting search_query_ok items)" using assms(9) by (rule mset_eq_setD)
  ultimately have "k \<in> set order" using assms(6) by (simp add: waiting_eq)
  moreover have "?g k \<noteq> []" using assms(7,8) by (auto simp: search_mk_def)
  ultimately have "concat (map ?g order) \<noteq> []" by (rule concat_map_nonempty)
  with fired assms(1,2,3,4) show ?thesis
    by (simp add: search_def search_wait_truthy rejoin_reorder search_key_eq reorder_null)
qed

theorem search_null_item_never_settles_witness:
  "search 10 ex_token 2 [Some ex_item, None] ex_r [0] = Some (NeverSettles [TypeError ''item''])"
  using search_null_item_never_settles[where p = ex_token and totalCount = 2 and maxResults = 10
      and items = "[Some ex_item, None]" and k = 0 and r = ex_r and order = "[0]"]
  by (simp add: sp_ex_defs token_truthy_def search_query_ok_def waiting_def fan0_def callback_tail_def)

text \<open>
  C36.  Loading a show whose episodes carry no top-level \<open>publisher\<close> field resolves
  with an empty list of tracks even when every episode was found: the rejoin
  compares the track's author (from \<open>episode.show.publisher\<close>) with
  \<open>episode2.publisher\<close>.
\<close>

theorem show_rejoin_drops_every_episode:
  assumes "take maxLen (o_episodes obj) = eps"
    and "\<forall>e\<in>set eps. ep_publisher e = None \<and> ep_images e \<noteq> []"
    and "k < length eps" "r k \<noteq> None"
    and "mset order = mset (waiting (\<lambda>e. True) (map Some eps))"
  shows "loadFrom ''show'' ident market maxLen None obj d r order = Resolves (LList ''show'' (o_name obj) [])"
proof -
  let ?g = "\<lambda>i. the (pushed show_mk (map Some eps ! i) (r i))"
  have w: "waiting (\<lambda>e. True) (map Some eps) = [0..<length eps]" by (simp add: waiting_all)
  then have lt: "\<forall>i\<in>set order. i < length eps" using assms(5) by (metis atLeastLessThan_iff mset_eq_setD set_upt)
  have fired: "f_fired (fanout (\<lambda>e. True) show_mk (map Some eps) r order) = [concat (map ?g order)]"
    using assms(2,3,5) lt by (intro fanout_rejoins_once) (auto simp: pushed_show_mk)
  have "set order = set (waiting (\<lambda>e. True) (map Some eps))" using assms(5) by (rule mset_eq_setD)
  then have "k \<in> set order" using assms(3) w by simp
  moreover obtain img imgs where "ep_images (eps ! k) = img # imgs"
    using assms(2) nth_mem[OF assms(3)] by (meson neq_Nil_conv)
  then have "?g k \<noteq> []" using assms(3,4) by (auto simp: show_mk_def)
  ultimately have ne: "concat (map ?g order) \<noteq> []" by (rule concat_map_nonempty)
  have "reorder_spec show_match eps ts = []" for ts
    using assms(2) by (auto simp: reorder_spec_def show_match_def filter_empty_conv)
  then have "reorder show_key (map Some eps) (concat (map ?g order)) = Inr []"
    unfolding show_key_eq by (simp add: reorder_eq_spec)
  with fired ne assms(1) show ?thesis
    by (simp add: loadFrom_def endpoint_of_def load_error_def load_show_def rejoin_reorder)
qed

theorem show_rejoin_drops_every_episode_witness:
  "loadFrom ''show'' ''1'' ''US'' 10 None ex_show LEmpty ex_r [0] = Resolves (LList ''show'' ''Show'' [])"
  using show_rejoin_drops_every_episode[where maxLen = 10 and obj = ex_show and eps = "[ex_episode]"
      and k = 0 and r = ex_r and order = "[0]" and ident = "''1''" and market = "''US''" and d = LEmpty]
  by (simp add: sp_ex_defs waiting_def fan0_def callback_tail_def)


text \<open>
  C38.  When the API answers status 401, \<open>loadFrom\<close> never settles: the call of the
  undefined \<open>setSpotifyToken\<close> throws a \<open>ReferenceError\<close> before the retry.
\<close>

theorem load_unauthorized_never_settles:
  assumes "endpoint_of kind ident market \<noteq> None"
  shows "loadFrom kind ident market maxLen (Some (ApiError 401 msg)) obj d r order =
    NeverSettles [ReferenceError ''setSpotifyToken'']"
  using assms by (auto simp: loadFrom_def load_error_def)

theorem load_unauthorized_never_settles_witness:
  "loadFrom ''track'' ''1'' ''US'' 10 (Some (ApiError 401 ''expired'')) ex_show LEmpty ex_r [] =
   NeverSettles [ReferenceError ''setSpotifyToken'']"
  using load_unauthorized_never_settles[where kind = "''track''" and ident = "''1''" and market = "''US''"
      and maxLen = 10 and msg = "''expired''" and obj = ex_show and d = LEmpty and r = ex_r and order = "[]"]
  by (simp add: endpoint_of_def)

text \<open>
  C39.  Every track of a search answer is a Spotify track (seekable, not a stream)
  whose position is below the number of items considered, whatever the answers and
  the completion order.
\<close>

theorem search_answer_wellformed:
  assumes "search maxResults p totalCount items r order = Some (Resolves (LSearch us))"
  shows "\<forall>u\<in>set us. position u < min maxResults (length items) \<and> spotify_track u"
proof -
  let ?its = "take maxResults items"
  have "rejoin search_key LSearch ?its (fanout search_query_ok search_mk ?its r order) = Resolves (LSearch us)"
    using assms by (auto simp: search_def Let_def split: option.splits if_splits)
  from rejoin_wellformed[OF this _ mk_spotify(1) spotify_track_position] show ?thesis by auto
qed

theorem search_answer_wellformed_witness:
  "search 10 ex_token 2 [Some ex_item, Some ex_item2] ex_r [1, 0] =
     Some (Resolves (LSearch [(track_of_item ex_item (ex_hit ''a''))\<lparr>position := 0\<rparr>])) \<and>
   spotify_track ((track_of_item ex_item (ex_hit ''a''))\<lparr>position := 0\<rparr>)"
proof -
  have s: "search 10 ex_token 2 [Some ex_item, Some ex_item2] ex_r [1, 0] =
     Some (Resolves (LSearch [(track_of_item ex_item (ex_hit ''a''))\<lparr>position := 0\<rparr>]))"
    by (simp add: search_def search_wait_def token_truthy_def sp_ex_defs fanout_def fan0_def callback_tail_def
        search_query_ok_def search_mk_def rejoin_def reorder_def search_key_def search_match_def track_of_item_def)
  show ?thesis using search_answer_wellformed[OF s] s by simp
qed

text \<open>
  C40.  Every track of a playlist, album or show answer of \<open>loadFrom\<close> is a Spotify
  track whose position is below \<open>maxAlbumPlaylistLength\<close>.
\<close>

theorem load_list_wellformed:
  assumes "kind \<noteq> ''track''" "kind \<noteq> ''episode''"
    and "loadFrom kind ident market maxLen err obj d r order = Resolves (LList k nm us)"
  shows "\<forall>u\<in>set us. position u < maxLen \<and> spotify_track u"
proof (cases "kind = ''show''")
  case True
  let ?eps = "map Some (take maxLen (o_episodes obj))"
  have "rejoin show_key (LList ''show'' (o_name obj)) ?eps (fanout (\<lambda>e. True) show_mk ?eps r order) =
      Resolves (LList k nm us)"
    using assms True
    by (auto simp: loadFrom_def load_show_def endpoint_of_def Let_def dest: load_error_not_list split: option.splits)
  from rejoin_wellformed[OF this _ mk_spotify(3) spotify_track_position] show ?thesis by auto
next
  case False
  let ?its = "take maxLen (o_items obj)"
  have "rejoin list_key (LList kind (o_name obj)) ?its (fanout list_query_ok list_mk ?its r order) =
      Resolves (LList k nm us)"
    using assms False
    by (auto simp: loadFrom_def load_list_def Let_def dest: load_error_not_list split: option.splits if_splits)
  from rejoin_wellformed[OF this _ mk_spotify(2) spotify_track_position] show ?thesis by auto
qed

theorem load_list_wellformed_witness:
  "loadFrom ''playlist'' ''1'' ''US'' 10 None ex_playlist LEmpty ex_r [0] =
     Resolves (LList ''playlist'' ''Mix'' [ex_list_track]) \<and>
   position ex_list_track < 10 \<and> spotify_track ex_list_track"
proof -
  have l: "loadFrom ''playlist'' ''1'' ''US'' 10 None ex_playlist LEmpty ex_r [0] =
     Resolves (LList ''playlist'' ''Mix'' [ex_list_track])"
    by (simp add: loadFrom_def endpoint_of_def load_error_def load_list_def ex_playlist_def sp_ex_defs
        fanout_def fan0_def callback_tail_def list_query_ok_def list_mk_def rejoin_def reorder_def
        list_key_def ex_list_track_def)
  show ?thesis using load_list_wellformed[OF _ _ l] l by simp
qed

end
