(* ===== verification/Spec2Isabelle.thy ===== *)
theory Spec2Isabelle
  imports Voice_System Spotify
begin

text \<open>
  \<^bold>\<open>A verification development of NodeLink.\<close>

  NodeLink is a Node.js audio server.  Its source under src/ has two parts, and
  this development models both:
  \<^item> src/src/connection/voiceHandler.js, class \<open>VoiceConnection\<close>: one object per
    guild that drives a voice session (of the library \<open>@performanc/voice\<close>),
    keeps the current track, volume and filters, reports events on the control
    channel \<open>client.ws\<close>, and updates two process-wide counters;
  \<^item> src/src/sources/spotify.js: the Spotify source, which fetches tokens
    (\<open>init\<close>), answers searches (\<open>search\<close>) and loads tracks, episodes,
    playlists, albums and shows (\<open>loadFrom\<close>), turning every Spotify item into
    a playable track through \<open>searchWithDefault\<close> (default.js).
  The two parts interact only through the track descriptors (\<open>track_info\<close>): the
  resolvers build them and VoiceConnection plays them.

  \<^bold>\<open>Theories.\<close>
  \<^item> \<open>NodeLink_Prelude\<close>: the fact collections \<open>vc_defs\<close> and \<open>vc_upd\<close>, the basic
    type names, the JavaScript error values \<open>js_error\<close> (\<open>TypeError\<close> for a read
    on \<open>null\<close>, \<open>ReferenceError\<close> for an undefined name, \<open>Rejected\<close> for a rejected
    await), and generic lemmas on lists, multisets and \<open>while_option\<close>.
  \<^item> \<open>Interfaces\<close>: the data crossing component boundaries.  That is the track
    records, the answers of the collaborators (resolver, filter pipeline,
    voice session), the commands issued to the voice session, the JSON events
    sent, and the configuration (\<open>environ\<close>).
  \<^item> \<open>Voice_Connection\<close>: VoiceConnection itself.  Its fields are the record
    \<open>vc\<close> and the process-wide state is \<open>glob\<close>, both inside a \<open>world\<close>.  There is
    one definition per method or listener, named as in the code:
    constructor \<open>new_vc\<close>, \<open>stopTrack\<close> (\<open>_stopTrack\<close>), \<open>getRealTime\<close>,
    \<open>setup_vc\<close>, \<open>onStateChange\<close>, \<open>onPlayerStateChange\<close>, \<open>onError\<close>, \<open>onTick\<close>
    (the interval callback), \<open>updateVoice\<close>, \<open>destroy\<close>, \<open>stop\<close>, \<open>volume\<close>,
    \<open>pause\<close>, \<open>play\<close> and \<open>filters\<close>.  The async methods \<open>play\<close> and \<open>filters\<close>
    are cut at each \<open>await\<close>: a start function returns either a result or a
    \<open>pending\<close> continuation that holds the live locals, and \<open>resume\<close> runs one
    continuation on the settled value (an \<open>answer\<close>).  \<open>drive\<close> runs a call to
    the end on a list of answers, and \<open>Hang\<close> is a promise that never settles.
  \<^item> \<open>Voice_System\<close>: the whole process as a deterministic step function
    \<open>sys_step\<close> on \<open>sys\<close>, holding every object, the shared globals, the pending
    continuations and the uncaught faults.  Each event of the single-threaded
    scheduler is one step: a routed command, a listener call, a timer firing,
    an await settling, or the transport changing.  \<open>reachable\<close> is the
    inductive set of states reachable from process start, and interleavings
    are sequences of events.
  \<^item> \<open>Spotify_Fanout\<close>: the asynchronous fan-out that spotify.js writes three
    times.  \<open>sync_pass\<close> is the synchronous pass of \<open>forEach(async ...)\<close>,
    \<open>complete\<close> the resumed callbacks in a given completion order,
    \<open>callback_tail\<close> the shared counter test, \<open>reorder\<close>/\<open>scan\<close> the nested
    rejoin loop over shared track objects, and \<open>rejoin\<close> what the promise
    settles to.  \<open>reorder_spec\<close> is the reference specification of the rejoin.
  \<^item> \<open>Spotify\<close>: \<open>init\<close>, the busy wait \<open>search_wait\<close>, \<open>search\<close> and \<open>loadFrom\<close>
    with every branch (\<open>load_track\<close>, \<open>load_episode\<close>, \<open>load_list\<close>,
    \<open>load_show\<close>, \<open>load_error\<close>, \<open>endpoint_of\<close>).  The parameters of the fan-out
    for each branch are named as in the code: \<open>search_query_ok\<close>, \<open>search_mk\<close>,
    \<open>search_key\<close>, \<open>list_mk\<close>, \<open>list_key\<close>, \<open>show_mk\<close>, \<open>show_key\<close>.

  \<^bold>\<open>What is proved.\<close>
  \<^item> C1-C23 (Voice_Connection): the functional behaviour of every method on
    each branch, errors included.  That covers the replaced/start/end/exception
    events, the staged volume, seek on filter change, and the teardown on
    disconnect.  It also covers the defects the code has: the \<open>TypeError\<close>
    after a resolver failure (line 242), the hang on a rejected stream promise,
    the silent connect timeout, and an end event without a track.  C16 is
    termination: every \<open>play\<close> and \<open>filters\<close> call settles after at most three
    settled awaits (the rank \<open>pending_rank\<close> of a continuation decreases on every
    \<open>resume\<close>).  C17 is a round trip: restoring the old pause flag or volume
    leaves the player unchanged but for the two calls issued.
  \<^item> C24-C29 (Voice_System): the invariant \<open>sys_inv\<close> by rule induction over
    \<open>reachable\<close>.  It states that the players counter equals the number of
    objects ever created (a destroyed player stays counted while it leaves the
    registry), that every object is well formed, and that timer ids are
    distinct.
    Three scenarios are proved as explicit sequences of steps: a stale
    \<open>play\<close> continuation overwrites a newer track, \<open>destroy\<close> does not cancel
    a pending \<open>play\<close>, and an interval timer keeps running after \<open>stop\<close>.
  \<^item> C30-C31 (Spotify_Fanout): when no callback throws, exactly one callback
    rejoins, with every track, whatever the completion order (a permutation,
    stated with \<open>mset\<close>).  When one item has no artist, no callback ever
    rejoins.
  \<^item> C32-C40 (Spotify).  C32: over items with distinct keys, the search answer
    is independent of the completion order and equal to the reference ranking.
    C33: the rejoin refines \<open>reorder_spec\<close>, and the aliasing of the shared
    objects is part of the specification.  C34: search returns exactly when
    \<open>init\<close> got both tokens.  C35: a null item makes search never settle.
    C36: a show resolves with no tracks (its rejoin reads the wrong field).
    C37: a duplicated item doubles the answer.  C38: status 401 makes
    \<open>loadFrom\<close> never settle (undefined \<open>setSpotifyToken\<close>).  C39-C40: every
    answer is made of Spotify tracks whose positions are in bounds.

  \<^bold>\<open>Model choices.\<close>
  No fuel is used anywhere.  Every loop of the code runs over a finite list and
  is structural recursion.  The one loop that may not end, the token busy wait
  at spotify.js lines 67-71, is \<open>while_option\<close>: its body cannot change the
  state (\<open>sleep\<close> is not awaited), so it is \<open>None\<close> exactly when the token is
  missing (C34).  A promise that never settles is a value: \<open>Hang\<close> for
  VoiceConnection, \<open>NeverSettles\<close> with the thrown errors for the Spotify
  source.  The answers of the collaborators, and the order in which awaits
  return, are inputs of the model; the theorems are stated for arbitrary
  answers under their hypotheses.  Machine integers do not overflow in this code: counters,
  volumes and positions are JavaScript numbers far below 2^53, so they are
  \<open>int\<close> or \<open>nat\<close>.

  \<^bold>\<open>Not modelled.\<close>
  \<^item> The voice transport library \<open>@performanc/voice\<close>: only the fields the
    handler reads and the calls it makes appear.
  \<^item> The resource resolver (sources.js), the filter pipeline (filters.js) and
    \<open>searchWithDefault\<close> (default.js): they are not under src/, so only the
    values they return are modelled.
  \<^item> The router that creates players and dispatches commands: modelled from
    the spec as the events of \<open>Voice_System\<close>.
  \<^item> config.js and constants.js: parameters (\<open>environ\<close>, \<open>maxResults\<close>,
    \<open>maxLen\<close>).
  \<^item> The \<open>speakStart\<close> listener, which only forwards to inputHandler.js.
  \<^item> \<open>debugLog\<close>, \<open>encodeTrack\<close>, HTTP, gzip and JSON parsing: they do not
    change what is resolved, and encoded strings are opaque.
\<close>

end
